theory Spec2Isabelle
  imports Complex_Main "HOL-Library.AList"
begin

section \<open>JavaScript values\<close>

text \<open>
  Request parameters, JSON bodies and result objects are JavaScript values. An object
  keeps its properties in insertion order, so it is an association list. Numbers are
  rationals and \<open>NaN\<close> is a value of its own. Where the code multiplies an amount into
  lamports, the product is the one the engine computes (a parameter, \<open>double_times\<close> below);
  the quotients by \<open>LAMPORTS_PER_SOL\<close>, which are only shown in results, are exact here.
\<close>

datatype jsval =
    Undefined
  | Null
  | Bool bool
  | Num rat
  | NaN
  | Str string
  | Arr "jsval list"
  | Obj "(string \<times> jsval) list"

text \<open>Truthiness, as \<open>!x\<close>, \<open>x || y\<close> and \<open>x ? a : b\<close> read it.\<close>

fun truthy :: "jsval \<Rightarrow> bool" where
  "truthy Undefined = False"
| "truthy Null = False"
| "truthy (Bool b) = b"
| "truthy (Num r) = (r \<noteq> 0)"
| "truthy NaN = False"
| "truthy (Str s) = (s \<noteq> [])"
| "truthy (Arr xs) = True"
| "truthy (Obj ps) = True"

definition js_or :: "jsval \<Rightarrow> jsval \<Rightarrow> jsval" where
  "js_or a b = (if truthy a then a else b)"

text \<open>\<open>o.k\<close> on an object literal built by this code, and \<open>o?.k\<close> on a request.\<close>

definition get_prop :: "(string \<times> jsval) list \<Rightarrow> string \<Rightarrow> jsval" where
  "get_prop ps k = (case map_of ps k of Some v \<Rightarrow> v | None \<Rightarrow> Undefined)"

fun opt_prop :: "jsval \<Rightarrow> string \<Rightarrow> jsval" where
  "opt_prop (Obj ps) k = get_prop ps k"
| "opt_prop v k = Undefined"

type_synonym endpoint = string
type_synonym message = string

section \<open>What the gateway cannot decide: the SDK and the remote ledger\<close>

text \<open>
  The ledger client (\<open>@solana/web3.js\<close>), \<open>bs58\<close> and the remote nodes are external
  collaborators. Their behaviour is a parameter of every operation: a \<open>world\<close> gives,
  for each call the code makes, what that call returns or the message of the error it
  throws (\<open>Inl\<close>). The results have the types the SDK declares. A world describes the
  collaborators during one operation; two operations may run in different worlds.
  \<open>double_times\<close> is the product of two numbers as the engine computes it, rounded to a
  double: the amount of a transfer in lamports is such a product, and the SDK refuses it
  when it is not an integer.
\<close>

record account_info =
  owner :: string
  lamports :: nat
  executable :: bool
  rentEpoch :: jsval
  data_length :: nat

record signature_info =
  signature :: string
  slot :: nat
  blockTime :: "int option"
  err :: jsval
  memo :: jsval
  confirmationStatus :: jsval

record token_account =
  account_pubkey :: string
  mint :: string
  token_owner :: string
  uiAmount :: jsval
  decimals :: jsval

record sdk =
  Connection_new :: "endpoint \<Rightarrow> message option"
  PublicKey_new :: "jsval \<Rightarrow> message + string"
  bs58_decode :: "jsval \<Rightarrow> message + nat list"
  bs58_encode :: "nat list \<Rightarrow> string"
  Keypair_fromSecretKey :: "nat list \<Rightarrow> message + string"
  Keypair_generate :: "string \<times> nat list"
  SystemProgram_transfer :: "string \<Rightarrow> string \<Rightarrow> jsval \<Rightarrow> message option"
  Transaction_sign :: "jsval \<Rightarrow> message option"
  Date_toISOString :: "rat \<Rightarrow> message + string"
  parseFloat :: "jsval \<Rightarrow> jsval"
  js_toString :: "jsval \<Rightarrow> string"
  double_times :: "rat \<Rightarrow> rat \<Rightarrow> rat"

record ledger =
  rpc_getSlot :: "endpoint \<Rightarrow> message + nat"
  rpc_getVersion :: "endpoint \<Rightarrow> message + jsval"
  rpc_getBlockTime :: "endpoint \<Rightarrow> nat \<Rightarrow> message + int option"
  rpc_getHealth :: "endpoint \<Rightarrow> message + jsval"
  rpc_getSupply :: "endpoint \<Rightarrow> message + nat \<times> nat"
  rpc_getBalance :: "endpoint \<Rightarrow> string \<Rightarrow> message + nat"
  rpc_getAccountInfo :: "endpoint \<Rightarrow> string \<Rightarrow> message + account_info option"
  rpc_getSignaturesForAddress :: "endpoint \<Rightarrow> string \<Rightarrow> jsval \<Rightarrow> message + signature_info list"
  rpc_getLatestBlockhash :: "endpoint \<Rightarrow> message + string \<times> nat"
  rpc_sendRawTransaction :: "endpoint \<Rightarrow> jsval \<Rightarrow> message + string"
  rpc_sendTransaction :: "endpoint \<Rightarrow> jsval \<Rightarrow> message + string"
  rpc_sendAndConfirmTransaction :: "endpoint \<Rightarrow> jsval \<Rightarrow> message + string"
  rpc_confirmTransaction :: "endpoint \<Rightarrow> jsval \<Rightarrow> message option"
  rpc_getParsedTokenAccountsByOwner :: "endpoint \<Rightarrow> string \<Rightarrow> message + token_account list"

record world =
  sdk :: sdk
  ledger :: ledger

text \<open>
  Every interaction with a collaborator leaves an event, in program order. Of the console,
  the model keeps the lines of the WebSocket handler, which print a whole inbound message
  (\<open>ConsoleLog\<close>, with the arguments of the call); the other lines print fixed texts,
  addresses, public keys, token metadata, key lengths and error messages, never a private
  key, and leave no event.
\<close>

datatype event =
    NewConnection endpoint string
  | Rpc endpoint string "jsval list"
  | HttpPost string jsval
  | ReadFile string
  | ConsoleLog "jsval list"

text \<open>
  A method call on the connection handle. On \<open>null\<close> the call throws a TypeError before
  anything is sent (the text of the message is the engine's).
\<close>

definition null_TypeError :: "string \<Rightarrow> message" where
  "null_TypeError m = ''Cannot read properties of null (reading '' @ m @ '')''"

definition conn_call ::
  "endpoint option \<Rightarrow> string \<Rightarrow> jsval list \<Rightarrow> (endpoint \<Rightarrow> message + 'a) \<Rightarrow> (message + 'a) \<times> event list" where
  "conn_call c m args f =
     (case c of
        None \<Rightarrow> (Inl (null_TypeError m), [])
      | Some e \<Rightarrow> (f e, [Rpc e m args]))"

text \<open>
  An asynchronous computation that may throw: its result, or the message of the error it
  throws, and the events it left. \<open>io_bind\<close> is sequencing inside one \<open>try\<close> block: the first
  throw ends the block. \<open>rethrow\<close> is \<open>catch (error) { throw new Error(prefix + error.message) }\<close>.
\<close>

type_synonym 'a io = "(message + 'a) \<times> event list"

definition io_bind :: "'a io \<Rightarrow> ('a \<Rightarrow> 'b io) \<Rightarrow> 'b io" where
  "io_bind m f =
     (case m of
        (Inl e, evs) \<Rightarrow> (Inl e, evs)
      | (Inr v, evs) \<Rightarrow> (case f v of (r, evs') \<Rightarrow> (r, evs @ evs')))"

definition io_pure :: "message + 'a \<Rightarrow> 'a io" where
  "io_pure r = (r, [])"

definition option_result :: "message option \<Rightarrow> message + unit" where
  "option_result r = (case r of Some e \<Rightarrow> Inl e | None \<Rightarrow> Inr ())"

definition throw_option :: "message option \<Rightarrow> unit io" where
  "throw_option r = (option_result r, [])"

text \<open>\<open>try { ... } catch (e) { }\<close>: the error is logged and dropped.\<close>

definition caught :: "'a io \<Rightarrow> 'a option \<times> event list" where
  "caught m = (case m of (Inl e, evs) \<Rightarrow> (None, evs) | (Inr v, evs) \<Rightarrow> (Some v, evs))"

text \<open>\<open>catch (error) { return h(error.message) }\<close>\<close>

definition catch_return :: "(message \<Rightarrow> 'a) \<Rightarrow> 'a io \<Rightarrow> 'a io" where
  "catch_return h m =
     (case m of
        (Inl e, evs) \<Rightarrow> (Inr (h e), evs)
      | (Inr v, evs) \<Rightarrow> (Inr v, evs))"

definition rethrow :: "string \<Rightarrow> 'a io \<Rightarrow> 'a io" where
  "rethrow prefix m =
     (case m of
        (Inl e, evs) \<Rightarrow> (Inl (prefix @ e), evs)
      | (Inr v, evs) \<Rightarrow> (Inr v, evs))"

section \<open>config.js\<close>

type_synonym env = "string \<rightharpoonup> string"

text \<open>\<open>process.env.K || d\<close>: an unset variable and an empty one both give the default.\<close>

definition env_or :: "env \<Rightarrow> string \<Rightarrow> string \<Rightarrow> string" where
  "env_or env k d = (case env k of None \<Rightarrow> d | Some v \<Rightarrow> if v = [] then d else v)"

definition config_solana_network :: "env \<Rightarrow> string" where
  "config_solana_network env = env_or env ''SOLANA_NETWORK'' ''devnet''"

definition config_solana_endpoints :: "env \<Rightarrow> (string \<times> endpoint list) list" where
  "config_solana_endpoints env =
     [(''mainnet-beta'',
         [env_or env ''MAINNET_RPC_URL'' ''https://api.mainnet-beta.solana.com'',
          ''https://solana-api.projectserum.com'',
          ''https://rpc.ankr.com/solana'']),
      (''devnet'',
         [env_or env ''DEVNET_RPC_URL'' ''https://api.devnet.solana.com'',
          ''https://devnet.genesysgo.net'']),
      (''testnet'',
         [env_or env ''TESTNET_RPC_URL'' ''https://api.testnet.solana.com'']),
      (''localnet'',
         [''http://localhost:8899''])]"

definition config_solana_commitment :: "env \<Rightarrow> string" where
  "config_solana_commitment env = env_or env ''SOLANA_COMMITMENT'' ''confirmed''"

section \<open>solana-api.js: the class SolanaAPI\<close>

text \<open>
  The fields the constructor initialises. \<open>this.network\<close> is assigned once, in the
  constructor, the literal \<open>'mainnet-beta'\<close> (``Force mainnet-beta network regardless of
  environment variable''), and no code assigns it again: it is a constant here.
  Every method runs to its end before another one starts: the interleaving of two pending
  methods at their \<open>await\<close>s is outside this model.
\<close>

record SolanaAPI =
  connection :: "endpoint option"
  connected :: bool
  lastConnectionCheck :: int

definition network :: string where
  "network = ''mainnet-beta''"

definition SolanaAPI_new :: SolanaAPI where
  "SolanaAPI_new = \<lparr>connection = None, connected = False, lastConnectionCheck = 0\<rparr>"

text \<open>
  \<open>config.solana.endpoints[network] || config.solana.endpoints['devnet']\<close>: an array is
  truthy, so the fallback is taken only when the key is absent.
\<close>

definition initConnection_endpoints :: "env \<Rightarrow> endpoint list" where
  "initConnection_endpoints env =
     (case map_of (config_solana_endpoints env) network of
        Some es \<Rightarrow> es
      | None \<Rightarrow>
          (case map_of (config_solana_endpoints env) ''devnet'' of Some es \<Rightarrow> es | None \<Rightarrow> []))"

text \<open>
  \<open>initConnection\<close>: the loop over the endpoints. \<open>now\<close> is what \<open>Date.now()\<close> returns
  at the first success. A constructor that throws leaves \<open>this.connection\<close> as it was; a
  probe that fails leaves the handle of the failed endpoint in place.
\<close>

fun initConnection_loop ::
  "world \<Rightarrow> string \<Rightarrow> int \<Rightarrow> endpoint list \<Rightarrow> SolanaAPI \<Rightarrow> SolanaAPI \<times> event list" where
  "initConnection_loop w c now [] this = (this, [])"
| "initConnection_loop w c now (endpoint # rest) this =
     (case Connection_new (sdk w) endpoint of
        Some m \<Rightarrow>
          (let (this', evs) = initConnection_loop w c now rest this
           in (this', NewConnection endpoint c # evs))
      | None \<Rightarrow>
          (let this1 = this\<lparr>connection := Some endpoint\<rparr> in
           case rpc_getSlot (ledger w) endpoint of
             Inr s \<Rightarrow>
               (this1\<lparr>connected := True, lastConnectionCheck := now\<rparr>,
                [NewConnection endpoint c, Rpc endpoint ''getSlot'' []])
           | Inl m \<Rightarrow>
               (let (this', evs) = initConnection_loop w c now rest this1
                in (this', NewConnection endpoint c # Rpc endpoint ''getSlot'' [] # evs))))"

definition initConnection :: "env \<Rightarrow> world \<Rightarrow> int \<Rightarrow> SolanaAPI \<Rightarrow> SolanaAPI \<times> event list" where
  "initConnection env w now this =
     initConnection_loop w (config_solana_commitment env) now (initConnection_endpoints env) this"

text \<open>
  \<open>checkConnectionHealth\<close>. \<open>t0\<close> is \<open>Date.now()\<close> on entry and \<open>t2\<close> at the last line;
  the probe runs in world \<open>w\<close>, the reconnection in world \<open>w'\<close> at time \<open>t1\<close>.
\<close>

definition checkConnectionHealth ::
  "env \<Rightarrow> int \<Rightarrow> world \<Rightarrow> world \<Rightarrow> int \<Rightarrow> int \<Rightarrow> SolanaAPI \<Rightarrow> SolanaAPI \<times> event list" where
  "checkConnectionHealth env t0 w w' t1 t2 this =
     (if t0 - lastConnectionCheck this < 10000 then (this, [])
      else
        (case conn_call (connection this) ''getSlot'' [] (rpc_getSlot (ledger w)) of
           (Inr s, evs) \<Rightarrow> (this\<lparr>connected := True, lastConnectionCheck := t2\<rparr>, evs)
         | (Inl m, evs) \<Rightarrow>
             (let (this', evs') = initConnection env w' t1 (this\<lparr>connected := False\<rparr>)
              in (this'\<lparr>lastConnectionCheck := t2\<rparr>, evs @ evs'))))"

definition LAMPORTS_PER_SOL :: rat where
  "LAMPORTS_PER_SOL = 1000000000"

text \<open>\<open>getBalance\<close> reads \<open>this.connection\<close> and never \<open>this.connected\<close>.\<close>

definition getBalance :: "world \<Rightarrow> SolanaAPI \<Rightarrow> jsval \<Rightarrow> jsval io" where
  "getBalance w this address =
     rethrow ''Failed to get balance: ''
       (io_bind (io_pure (PublicKey_new (sdk w) address)) (\<lambda>pubkey.
        io_bind (conn_call (connection this) ''getBalance'' [Str pubkey]
                   (\<lambda>e. rpc_getBalance (ledger w) e pubkey)) (\<lambda>balance.
        io_pure (Inr (Obj
          [(''address'', address),
           (''balanceInLamports'', Num (of_nat balance)),
           (''balanceInSol'', Num (of_nat balance / LAMPORTS_PER_SOL))])))))"

text \<open>
  \<open>getNetworkStatus\<close>: a reconnection when the flag is false, then five sub-queries, each in
  a \<open>try\<close> of its own, then the result object. The outer \<open>catch\<close> returns an object too.
  \<open>getBlockTime\<close> is asked only for a truthy slot.
\<close>

definition opt_json :: "('a \<Rightarrow> jsval) \<Rightarrow> 'a option \<Rightarrow> jsval" where
  "opt_json f x = (case x of None \<Rightarrow> Null | Some v \<Rightarrow> f v)"

definition num_of_nat :: "nat \<Rightarrow> jsval" where
  "num_of_nat n = Num (of_nat n)"

definition blockTime_field :: "sdk \<Rightarrow> int option \<Rightarrow> message + jsval" where
  "blockTime_field k t =
     (case t of
        None \<Rightarrow> Inr Null
      | Some n \<Rightarrow>
          if n = 0 then Inr Null
          else (case Date_toISOString k (of_int n * 1000) of Inl e \<Rightarrow> Inl e | Inr text \<Rightarrow> Inr (Str text)))"

definition getNetworkStatus :: "env \<Rightarrow> world \<Rightarrow> int \<Rightarrow> SolanaAPI \<Rightarrow> SolanaAPI \<times> jsval io" where
  "getNetworkStatus env w now this =
     (let (this1, evs0) = (if connected this then (this, []) else initConnection env w now this)
      in
        if \<not> connected this1 then
          (this1,
           Inr (Obj [(''network'', Str network), (''connected'', Bool False),
                     (''error'', Str ''Failed to connect to Solana network'')]),
           evs0)
        else
          (let (version, evs1) =
                 caught (conn_call (connection this1) ''getVersion'' [] (rpc_getVersion (ledger w)));
               (current, evs2) =
                 caught (conn_call (connection this1) ''getSlot'' [] (rpc_getSlot (ledger w)));
               (time, evs3) =
                 (case current of
                    None \<Rightarrow> (None, [])
                  | Some n \<Rightarrow>
                      if n = 0 then (None, [])
                      else caught (conn_call (connection this1) ''getBlockTime'' [num_of_nat n]
                                     (\<lambda>e. rpc_getBlockTime (ledger w) e n)));
               (health, evs4) =
                 caught (conn_call (connection this1) ''getHealth'' [] (rpc_getHealth (ledger w)));
               (supply, evs5) =
                 caught (conn_call (connection this1) ''getSupply'' [] (rpc_getSupply (ledger w)));
               evs = evs0 @ evs1 @ evs2 @ evs3 @ evs4 @ evs5
           in
             (case blockTime_field (sdk w) (case time of None \<Rightarrow> None | Some t \<Rightarrow> t) of
                Inl e \<Rightarrow>
                  (this1,
                   Inr (Obj [(''network'', Str network), (''connected'', Bool (connected this1)),
                             (''error'', Str (''Failed to get complete network status: '' @ e))]),
                   evs)
              | Inr time_text \<Rightarrow>
                  (this1,
                   Inr (Obj [(''network'', Str network),
                             (''connected'', Bool (connected this1)),
                             (''version'', opt_json id version),
                             (''currentSlot'', opt_json num_of_nat current),
                             (''blockTime'', time_text),
                             (''health'', (case health of None \<Rightarrow> Str ''unknown'' | Some h \<Rightarrow> h)),
                             (''totalSupply'',
                                (case supply of None \<Rightarrow> Num 0
                                 | Some (total_lamports, circulating_lamports) \<Rightarrow> Num (of_nat total_lamports / LAMPORTS_PER_SOL))),
                             (''circulatingSupply'',
                                (case supply of None \<Rightarrow> Num 0
                                 | Some (total_lamports, circulating_lamports) \<Rightarrow>
                                     Num (of_nat circulating_lamports / LAMPORTS_PER_SOL)))]),
                   evs))))"

text \<open>\<open>getAccountInfo\<close>, \<open>getTransactions\<close> (with its default \<open>limit = 10\<close>) and \<open>createWallet\<close>.\<close>

definition account_json :: "jsval \<Rightarrow> account_info option \<Rightarrow> jsval" where
  "account_json address accountInfo =
     (case accountInfo of
        None \<Rightarrow> Obj [(''exists'', Bool False), (''address'', address)]
      | Some a \<Rightarrow>
          Obj [(''exists'', Bool True),
               (''address'', address),
               (''owner'', Str (owner a)),
               (''lamports'', num_of_nat (lamports a)),
               (''sol'', Num (of_nat (lamports a) / LAMPORTS_PER_SOL)),
               (''executable'', Bool (executable a)),
               (''rentEpoch'', rentEpoch a),
               (''dataSize'', num_of_nat (data_length a))])"

definition getAccountInfo :: "world \<Rightarrow> SolanaAPI \<Rightarrow> jsval \<Rightarrow> jsval io" where
  "getAccountInfo w this address =
     rethrow ''Failed to get account info: ''
       (io_bind (io_pure (PublicKey_new (sdk w) address)) (\<lambda>pubkey.
        io_bind (conn_call (connection this) ''getAccountInfo'' [Str pubkey]
                   (\<lambda>e. rpc_getAccountInfo (ledger w) e pubkey)) (\<lambda>accountInfo.
        io_pure (Inr (account_json address accountInfo)))))"

definition signature_json :: "sdk \<Rightarrow> signature_info \<Rightarrow> message + jsval" where
  "signature_json k sig =
     (case blockTime_field k (blockTime sig) of
        Inl e \<Rightarrow> Inl e
      | Inr time_text \<Rightarrow>
          Inr (Obj [(''signature'', Str (signature sig)),
                    (''slot'', num_of_nat (slot sig)),
                    (''blockTime'', time_text),
                    (''err'', err sig),
                    (''memo'', memo sig),
                    (''confirmationStatus'', confirmationStatus sig)]))"

fun signatures_json :: "sdk \<Rightarrow> signature_info list \<Rightarrow> message + jsval list" where
  "signatures_json k [] = Inr []"
| "signatures_json k (sig # sigs) =
     (case signature_json k sig of
        Inl e \<Rightarrow> Inl e
      | Inr v \<Rightarrow> (case signatures_json k sigs of Inl e \<Rightarrow> Inl e | Inr vs \<Rightarrow> Inr (v # vs)))"

definition default_limit :: "jsval \<Rightarrow> jsval" where
  "default_limit limit = (if limit = Undefined then Num 10 else limit)"

definition getTransactions :: "world \<Rightarrow> SolanaAPI \<Rightarrow> jsval \<Rightarrow> jsval \<Rightarrow> jsval io" where
  "getTransactions w this address limit =
     rethrow ''Failed to get transactions: ''
       (io_bind (io_pure (PublicKey_new (sdk w) address)) (\<lambda>pubkey.
        io_bind (conn_call (connection this) ''getSignaturesForAddress''
                   [Str pubkey, Obj [(''limit'', default_limit limit)]]
                   (\<lambda>e. rpc_getSignaturesForAddress (ledger w) e pubkey (default_limit limit)))
          (\<lambda>signatures.
        io_pure (case signatures_json (sdk w) signatures of Inl e \<Rightarrow> Inl e | Inr vs \<Rightarrow> Inr (Arr vs)))))"

definition createWallet :: "world \<Rightarrow> jsval io" where
  "createWallet w =
     (case Keypair_generate (sdk w) of
        (publicKey, secretKey) \<Rightarrow>
          (Inr (Obj [(''publicKey'', Str publicKey),
                     (''privateKey'', Str (bs58_encode (sdk w) secretKey))]), []))"

text \<open>
  \<open>transferSol\<close>. The transaction that is signed and sent is shown as an object of its
  parts. Nothing is sent before the key check.
\<close>

definition transfer_instruction :: "string \<Rightarrow> string \<Rightarrow> jsval \<Rightarrow> (string \<times> jsval) list" where
  "transfer_instruction fromPubkey toPubkey amount_lamports =
     [(''fromPubkey'', Str fromPubkey), (''toPubkey'', Str toPubkey),
      (''lamports'', amount_lamports)]"

definition transfer_tx :: "string \<Rightarrow> string \<Rightarrow> jsval \<Rightarrow> string \<Rightarrow> jsval" where
  "transfer_tx fromPubkey toPubkey amount_lamports blockhash =
     Obj (transfer_instruction fromPubkey toPubkey amount_lamports @
          [(''recentBlockhash'', Str blockhash), (''feePayer'', Str fromPubkey)])"

definition transferSol :: "world \<Rightarrow> SolanaAPI \<Rightarrow> jsval \<Rightarrow> jsval \<Rightarrow> rat \<Rightarrow> jsval \<Rightarrow> jsval io" where
  "transferSol w this fromAddress toAddress amount privateKey =
     rethrow ''Failed to transfer SOL: ''
       (io_bind (io_pure (PublicKey_new (sdk w) fromAddress)) (\<lambda>fromPubkey.
        io_bind (io_pure (PublicKey_new (sdk w) toAddress)) (\<lambda>toPubkey.
        io_bind (io_pure (bs58_decode (sdk w) privateKey)) (\<lambda>secretKey.
        io_bind (io_pure (Keypair_fromSecretKey (sdk w) secretKey)) (\<lambda>fromKeypair.
        if Str fromKeypair \<noteq> fromAddress
        then io_pure (Inl ''Private key does not match sender address'')
        else
          io_bind (throw_option (SystemProgram_transfer (sdk w) fromPubkey toPubkey
                     (Num (double_times (sdk w) amount LAMPORTS_PER_SOL)))) (\<lambda>u.
          io_bind (conn_call (connection this) ''getLatestBlockhash'' []
                     (rpc_getLatestBlockhash (ledger w))) (\<lambda>(blockhash, lastValidBlockHeight).
          let tx = transfer_tx fromPubkey toPubkey (Num (double_times (sdk w) amount LAMPORTS_PER_SOL)) blockhash in
          io_bind (throw_option (Transaction_sign (sdk w) tx)) (\<lambda>u.
          io_bind (conn_call (connection this) ''sendRawTransaction'' [tx]
                     (\<lambda>e. rpc_sendRawTransaction (ledger w) e tx)) (\<lambda>sent.
          let confirmation =
                Obj [(''blockhash'', Str blockhash),
                     (''lastValidBlockHeight'', num_of_nat lastValidBlockHeight),
                     (''signature'', Str sent)] in
          io_bind (conn_call (connection this) ''confirmTransaction'' [confirmation]
                     (\<lambda>e. case rpc_confirmTransaction (ledger w) e confirmation of
                            Some m \<Rightarrow> Inl m | None \<Rightarrow> Inr ())) (\<lambda>u.
          io_pure (Inr (Obj [(''success'', Bool True),
                             (''signature'', Str sent),
                             (''from'', fromAddress),
                             (''to'', toAddress),
                             (''amount'', Num amount),
                             (''lamports'', Num (double_times (sdk w) amount LAMPORTS_PER_SOL))]))))))))))))"

text \<open>The endpoints an event list opened a connection to, in order.\<close>

fun attempts :: "event list \<Rightarrow> endpoint list" where
  "attempts [] = []"
| "attempts (NewConnection e c # evs) = e # attempts evs"
| "attempts (ev # evs) = attempts evs"

text \<open>An endpoint is live in a world when its handle can be built and its probe answers.\<close>

definition live :: "world \<Rightarrow> endpoint \<Rightarrow> bool" where
  "live w e = (Connection_new (sdk w) e = None \<and> \<not> isl (rpc_getSlot (ledger w) e))"

definition probe_ok :: "world \<Rightarrow> SolanaAPI \<Rightarrow> bool" where
  "probe_ok w this =
     (case connection this of None \<Rightarrow> False | Some e \<Rightarrow> \<not> isl (rpc_getSlot (ledger w) e))"

definition probe_events :: "SolanaAPI \<Rightarrow> event list" where
  "probe_events this =
     (case connection this of None \<Rightarrow> [] | Some e \<Rightarrow> [Rpc e ''getSlot'' []])"

section \<open>solana.js: the module behind the HTTP and WebSocket server\<close>

text \<open>
  The module variables \<open>connection\<close> and \<open>network\<close>, as they are when the module is loaded.
\<close>

record solana_module =
  module_connection :: "endpoint option"
  module_network :: string

definition solana_module_loaded :: solana_module where
  "solana_module_loaded = \<lparr>module_connection = None, module_network = ''devnet''\<rparr>"

definition rpcEndpoints :: "env \<Rightarrow> (string \<times> endpoint list) list" where
  "rpcEndpoints env =
     [(''mainnet-beta'',
         [env_or env ''MAINNET_RPC_URL'' ''https://api.mainnet-beta.solana.com'',
          ''https://solana-api.projectserum.com'',
          ''https://rpc.ankr.com/solana'']),
      (''devnet'',
         [env_or env ''DEVNET_RPC_URL'' ''https://api.devnet.solana.com'',
          ''https://devnet.genesysgo.net'']),
      (''testnet'',
         [env_or env ''TESTNET_RPC_URL'' ''https://api.testnet.solana.com'']),
      (''localnet'',
         [''http://localhost:8899''])]"

text \<open>
  \<open>rpcEndpoints[network] || rpcEndpoints['devnet']\<close>, followed by \<open>for (... of endpoints)\<close>.
  The network name comes from the environment, so it can be a name every object inherits
  from \<open>Object.prototype\<close>: the lookup is then truthy and not iterable, and the loop throws.
\<close>

definition Object_prototype_keys :: "string list" where
  "Object_prototype_keys =
     [''constructor'', ''__proto__'', ''toString'', ''toLocaleString'', ''valueOf'',
      ''hasOwnProperty'', ''isPrototypeOf'', ''propertyIsEnumerable'', ''__defineGetter__'',
      ''__defineSetter__'', ''__lookupGetter__'', ''__lookupSetter__'']"

definition rpcEndpoints_for :: "env \<Rightarrow> string \<Rightarrow> message + endpoint list" where
  "rpcEndpoints_for env name =
     (case map_of (rpcEndpoints env) name of
        Some es \<Rightarrow> Inr es
      | None \<Rightarrow>
          if name \<in> set Object_prototype_keys then Inl ''endpoints is not iterable''
          else (case map_of (rpcEndpoints env) ''devnet'' of Some es \<Rightarrow> Inr es | None \<Rightarrow> Inr []))"

text \<open>
  The loop of \<open>initialize\<close>, with its local variables \<open>connected\<close> and \<open>connectionError\<close>.
  \<open>initialize\<close> is not an \<open>async\<close> function and does not wait for the probe: \<open>getSlot()\<close>
  is sent, its \<open>then\<close> and \<open>catch\<close> callbacks are registered, and the loop goes on. The
  callbacks run only after the function has returned, so \<open>connected\<close> is still false at
  every \<open>if (connected) break\<close>; what they assign later is read by nothing. Only a
  constructor that throws is caught here.
\<close>

fun initialize_loop ::
  "world \<Rightarrow> endpoint list \<Rightarrow> endpoint option \<Rightarrow> bool \<Rightarrow> message option \<Rightarrow>
     (endpoint option \<times> bool \<times> message option) \<times> event list" where
  "initialize_loop w [] conn is_connected connectionError =
     ((conn, is_connected, connectionError), [])"
| "initialize_loop w (endpoint # rest) conn is_connected connectionError =
     (if is_connected then ((conn, is_connected, connectionError), [])
      else
        (case Connection_new (sdk w) endpoint of
           Some m \<Rightarrow>
             (let (r, evs) = initialize_loop w rest conn is_connected (Some m)
              in (r, NewConnection endpoint ''confirmed'' # evs))
         | None \<Rightarrow>
             (let (r, evs) = initialize_loop w rest (Some endpoint) is_connected connectionError
              in (r, NewConnection endpoint ''confirmed'' # Rpc endpoint ''getSlot'' [] # evs))))"

text \<open>
  \<open>initialize(networkName)\<close>; \<open>None\<close> is the call without argument, which takes the default
  \<open>process.env.SOLANA_NETWORK || 'devnet'\<close>. The result is the module state the returned
  closures work on, and the events.
\<close>

definition initialize ::
  "env \<Rightarrow> world \<Rightarrow> solana_module \<Rightarrow> string option \<Rightarrow> message + solana_module \<times> event list" where
  "initialize env w m networkName =
     (let name = (case networkName of None \<Rightarrow> env_or env ''SOLANA_NETWORK'' ''devnet'' | Some n \<Rightarrow> n);
          net = (if name = [] then ''devnet'' else name)
      in case rpcEndpoints_for env net of
           Inl e \<Rightarrow> Inl e
         | Inr endpoints \<Rightarrow>
             (case initialize_loop w endpoints (module_connection m) False None of
                ((conn, is_connected, connectionError), evs) \<Rightarrow>
                  Inr (\<lparr>module_connection = conn, module_network = net\<rparr>, evs)))"

text \<open>
  The functions \<open>initialize\<close> returns. They close over the module variable \<open>connection\<close>.
  \<open>getNetworkStatus\<close> has one \<open>try\<close> around all four queries.
\<close>

definition solana_getNetworkStatus :: "world \<Rightarrow> solana_module \<Rightarrow> jsval io" where
  "solana_getNetworkStatus w m =
     rethrow ''Failed to get network status: ''
       (io_bind (conn_call (module_connection m) ''getVersion'' [] (rpc_getVersion (ledger w)))
          (\<lambda>version.
        io_bind (conn_call (module_connection m) ''getSlot'' [] (rpc_getSlot (ledger w)))
          (\<lambda>current.
        io_bind (conn_call (module_connection m) ''getBlockTime'' [num_of_nat current]
                   (\<lambda>e. rpc_getBlockTime (ledger w) e current)) (\<lambda>time.
        io_bind (conn_call (module_connection m) ''getSupply'' [] (rpc_getSupply (ledger w)))
          (\<lambda>(total_lamports, circulating_lamports).
        io_bind (io_pure (Date_toISOString (sdk w)
                   (case time of None \<Rightarrow> 0 | Some t \<Rightarrow> of_int t * 1000))) (\<lambda>time_text.
        io_pure (Inr (Obj [(''network'', Str (module_network m)),
                           (''version'', version),
                           (''currentSlot'', num_of_nat current),
                           (''blockTime'', Str time_text),
                           (''totalSupply'', Num (of_nat total_lamports / LAMPORTS_PER_SOL)),
                           (''circulatingSupply'',
                              Num (of_nat circulating_lamports / LAMPORTS_PER_SOL))]))))))))"

definition solana_getBalance :: "world \<Rightarrow> solana_module \<Rightarrow> jsval \<Rightarrow> jsval io" where
  "solana_getBalance w m address =
     rethrow ''Failed to get balance: ''
       (io_bind (io_pure (PublicKey_new (sdk w) address)) (\<lambda>pubkey.
        io_bind (conn_call (module_connection m) ''getBalance'' [Str pubkey]
                   (\<lambda>e. rpc_getBalance (ledger w) e pubkey)) (\<lambda>balance.
        io_pure (Inr (Obj
          [(''address'', address),
           (''balanceInLamports'', num_of_nat balance),
           (''balanceInSol'', Num (of_nat balance / LAMPORTS_PER_SOL))])))))"

definition solana_getTransactions :: "world \<Rightarrow> solana_module \<Rightarrow> jsval \<Rightarrow> jsval \<Rightarrow> jsval io" where
  "solana_getTransactions w m address limit =
     rethrow ''Failed to get transactions: ''
       (io_bind (io_pure (PublicKey_new (sdk w) address)) (\<lambda>pubkey.
        io_bind (conn_call (module_connection m) ''getSignaturesForAddress''
                   [Str pubkey, Obj [(''limit'', default_limit limit)]]
                   (\<lambda>e. rpc_getSignaturesForAddress (ledger w) e pubkey (default_limit limit)))
          (\<lambda>transactions.
        io_pure (case signatures_json (sdk w) transactions of Inl e \<Rightarrow> Inl e | Inr vs \<Rightarrow> Inr (Arr vs)))))"

definition solana_getAccountInfo :: "world \<Rightarrow> solana_module \<Rightarrow> jsval \<Rightarrow> jsval io" where
  "solana_getAccountInfo w m address =
     rethrow ''Failed to get account info: ''
       (io_bind (io_pure (PublicKey_new (sdk w) address)) (\<lambda>pubkey.
        io_bind (conn_call (module_connection m) ''getAccountInfo'' [Str pubkey]
                   (\<lambda>e. rpc_getAccountInfo (ledger w) e pubkey)) (\<lambda>accountInfo.
        io_pure (Inr (account_json address accountInfo)))))"

definition solana_transferSol ::
  "world \<Rightarrow> solana_module \<Rightarrow> jsval \<Rightarrow> jsval \<Rightarrow> rat \<Rightarrow> jsval \<Rightarrow> jsval io" where
  "solana_transferSol w m fromAddress toAddress amount privateKey =
     rethrow ''Failed to transfer SOL: ''
       (io_bind (io_pure (PublicKey_new (sdk w) fromAddress)) (\<lambda>fromPubkey.
        io_bind (io_pure (PublicKey_new (sdk w) toAddress)) (\<lambda>toPubkey.
        io_bind (io_pure (bs58_decode (sdk w) privateKey)) (\<lambda>secretKey.
        io_bind (io_pure (Keypair_fromSecretKey (sdk w) secretKey)) (\<lambda>fromKeypair.
        if Str fromKeypair \<noteq> fromAddress
        then io_pure (Inl ''Private key does not match sender address'')
        else
          io_bind (throw_option (SystemProgram_transfer (sdk w) fromPubkey toPubkey
                     (Num (double_times (sdk w) amount LAMPORTS_PER_SOL)))) (\<lambda>u.
          io_bind (conn_call (module_connection m) ''getLatestBlockhash'' []
                     (rpc_getLatestBlockhash (ledger w))) (\<lambda>(blockhash, lastValidBlockHeight).
          let tx = transfer_tx fromPubkey toPubkey (Num (double_times (sdk w) amount LAMPORTS_PER_SOL)) blockhash in
          io_bind (conn_call (module_connection m) ''sendAndConfirmTransaction'' [tx]
                     (\<lambda>e. rpc_sendAndConfirmTransaction (ledger w) e tx)) (\<lambda>sent.
          io_pure (Inr (Obj [(''success'', Bool True),
                             (''signature'', Str sent),
                             (''from'', fromAddress),
                             (''to'', toAddress),
                             (''amount'', Num amount),
                             (''lamports'', Num (double_times (sdk w) amount LAMPORTS_PER_SOL))]))))))))))"

section \<open>mcp.js: the generic dispatch\<close>

text \<open>
  \<open>processRequest(request)\<close>, behind \<open>POST /api/mcp/execute\<close> and the WebSocket message type
  \<open>mcp\<close>. It uses \<open>getNetworkStatus\<close>, \<open>getBalance\<close> and \<open>getTransactions\<close> of solana.js and
  has code of its own for the other actions.
\<close>

definition destructure_TypeError :: message where
  "destructure_TypeError = ''Cannot destructure property action of request as it is undefined''"

definition Math_round :: "rat \<Rightarrow> int" where
  "Math_round r = \<lfloor>r + 1 / 2\<rfloor>"

definition token_account_json :: "token_account \<Rightarrow> jsval" where
  "token_account_json a =
     Obj [(''pubkey'', Str (account_pubkey a)),
          (''mint'', Str (mint a)),
          (''owner'', Str (token_owner a)),
          (''amount'', uiAmount a),
          (''decimals'', decimals a)]"

definition processRequest_transferSol :: "world \<Rightarrow> solana_module \<Rightarrow> jsval \<Rightarrow> jsval \<Rightarrow> jsval io" where
  "processRequest_transferSol w m action parameters =
     (if \<not> truthy (opt_prop parameters ''from'') \<or> \<not> truthy (opt_prop parameters ''to'') \<or>
         \<not> truthy (opt_prop parameters ''amount'') \<or> \<not> truthy (opt_prop parameters ''privateKey'')
      then io_pure (Inl ''Missing required parameters for transfer'')
      else
        rethrow ''Transfer failed: ''
          (let amount_lamports =
                 (case parseFloat (sdk w) (opt_prop parameters ''amount'') of
                    Num r \<Rightarrow> Num (of_int (Math_round (double_times (sdk w) r 1000000000)))
                  | other \<Rightarrow> NaN)
           in
           io_bind (io_pure (bs58_decode (sdk w) (opt_prop parameters ''privateKey''))) (\<lambda>secretKey.
           io_bind (io_pure (Keypair_fromSecretKey (sdk w) secretKey)) (\<lambda>fromKeypair.
           io_bind (io_pure (PublicKey_new (sdk w) (opt_prop parameters ''to''))) (\<lambda>toPublicKey.
           io_bind (throw_option (SystemProgram_transfer (sdk w) fromKeypair toPublicKey
                      amount_lamports)) (\<lambda>u.
           let tx = Obj (transfer_instruction fromKeypair toPublicKey amount_lamports) in
           io_bind (conn_call (module_connection m) ''sendTransaction'' [tx]
                      (\<lambda>e. rpc_sendTransaction (ledger w) e tx)) (\<lambda>sent.
           io_bind (conn_call (module_connection m) ''confirmTransaction'' [Str sent]
                      (\<lambda>e. case rpc_confirmTransaction (ledger w) e (Str sent) of
                             Some e' \<Rightarrow> Inl e' | None \<Rightarrow> Inr ())) (\<lambda>u.
           io_pure (Inr (Obj [(''action'', action),
                              (''success'', Bool True),
                              (''signature'', Str sent),
                              (''message'', Str (''Transferred '' @
                                 js_toString (sdk w) (opt_prop parameters ''amount'') @
                                 '' SOL from '' @ fromKeypair @ '' to '' @
                                 js_toString (sdk w) (opt_prop parameters ''to'')))]))))))))))"

definition processRequest_getAccountInfo :: "world \<Rightarrow> solana_module \<Rightarrow> jsval \<Rightarrow> jsval \<Rightarrow> jsval io" where
  "processRequest_getAccountInfo w m action parameters =
     (if \<not> truthy (opt_prop parameters ''address'')
      then io_pure (Inl ''Missing address parameter'')
      else
        rethrow ''Failed to get account info: ''
          (io_bind (io_pure (PublicKey_new (sdk w) (opt_prop parameters ''address''))) (\<lambda>publicKey.
           io_bind (conn_call (module_connection m) ''getAccountInfo'' [Str publicKey]
                      (\<lambda>e. rpc_getAccountInfo (ledger w) e publicKey)) (\<lambda>accountInfo.
           io_bind (solana_getBalance w m (opt_prop parameters ''address'')) (\<lambda>balance.
           io_pure (Inr (Obj [(''action'', action),
                              (''address'', opt_prop parameters ''address''),
                              (''balance'', balance),
                              (''exists'', Bool (accountInfo \<noteq> None)),
                              (''executable'', opt_json (\<lambda>a. Bool (executable a)) accountInfo),
                              (''owner'', opt_json (\<lambda>a. Str (owner a)) accountInfo),
                              (''rentEpoch'', opt_json rentEpoch accountInfo),
                              (''dataSize'', opt_json (\<lambda>a. num_of_nat (data_length a)) accountInfo)])))))))"

definition processRequest_getTokenAccounts :: "world \<Rightarrow> solana_module \<Rightarrow> jsval \<Rightarrow> jsval \<Rightarrow> jsval io" where
  "processRequest_getTokenAccounts w m action parameters =
     (if \<not> truthy (opt_prop parameters ''address'')
      then io_pure (Inl ''Missing address parameter'')
      else
        rethrow ''Failed to get token accounts: ''
          (io_bind (io_pure (PublicKey_new (sdk w) (opt_prop parameters ''address''))) (\<lambda>publicKey.
           io_bind (conn_call (module_connection m) ''getParsedTokenAccountsByOwner'' [Str publicKey]
                      (\<lambda>e. rpc_getParsedTokenAccountsByOwner (ledger w) e publicKey))
             (\<lambda>tokenAccounts.
           io_pure (Inr (Obj [(''action'', action),
                              (''address'', opt_prop parameters ''address''),
                              (''tokenAccounts'', Arr (map token_account_json tokenAccounts))]))))))"

definition processRequest :: "world \<Rightarrow> solana_module \<Rightarrow> jsval \<Rightarrow> jsval io" where
  "processRequest w m request =
     (if request = Undefined \<or> request = Null then io_pure (Inl destructure_TypeError)
      else
        (let action = opt_prop request ''action'';
             parameters = opt_prop request ''parameters''
         in
           if \<not> truthy action then io_pure (Inl ''Missing action parameter'')
           else if action = Str ''getNetworkStatus'' then solana_getNetworkStatus w m
           else if action = Str ''getBalance'' then
             (if \<not> truthy (opt_prop parameters ''address'')
              then io_pure (Inl ''Missing address parameter'')
              else
                io_bind (solana_getBalance w m (opt_prop parameters ''address'')) (\<lambda>balance.
                io_pure (Inr (Obj [(''action'', action),
                                   (''address'', opt_prop parameters ''address''),
                                   (''balance'', balance)]))))
           else if action = Str ''getTransactions'' then
             (if \<not> truthy (opt_prop parameters ''address'')
              then io_pure (Inl ''Missing address parameter'')
              else
                io_bind (solana_getTransactions w m (opt_prop parameters ''address'')
                           (js_or (opt_prop parameters ''limit'') (Num 10))) (\<lambda>transactions.
                io_pure (Inr (Obj [(''action'', action),
                                   (''address'', opt_prop parameters ''address''),
                                   (''transactions'', transactions)]))))
           else if action = Str ''createWallet'' then
             (case Keypair_generate (sdk w) of
                (publicKey, secretKey) \<Rightarrow>
                  io_pure (Inr (Obj [(''action'', action),
                                     (''publicKey'', Str publicKey),
                                     (''privateKey'', Str (bs58_encode (sdk w) secretKey))])))
           else if action = Str ''transferSol'' then processRequest_transferSol w m action parameters
           else if action = Str ''getAccountInfo'' then processRequest_getAccountInfo w m action parameters
           else if action = Str ''getTokenAccounts'' then
             processRequest_getTokenAccounts w m action parameters
           else io_pure (Inl (''Unsupported action: '' @ js_toString (sdk w) action))))"

text \<open>
  \<open>handleWebSocketMessage\<close>: what is sent on the socket. When \<open>message\<close> is undefined or null,
  \<open>processRequest\<close> throws and so does \<open>message.requestId\<close> in the \<open>catch\<close>: nothing is sent.
\<close>

definition handleWebSocketMessage :: "world \<Rightarrow> solana_module \<Rightarrow> jsval \<Rightarrow> jsval option \<times> event list" where
  "handleWebSocketMessage w m msg =
     (case processRequest w m msg of
        (Inr response, evs) \<Rightarrow>
          (Some (Obj [(''type'', Str ''response''),
                      (''requestId'', opt_prop msg ''requestId''),
                      (''data'', response)]), evs)
      | (Inl e, evs) \<Rightarrow>
          (if msg = Undefined \<or> msg = Null then (None, evs)
           else (Some (Obj [(''type'', Str ''error''),
                            (''requestId'', opt_prop msg ''requestId''),
                            (''error'', Str e)]), evs)))"

section \<open>The server entry point: the WebSocket handler\<close>

text \<open>
  The handler the server registers with \<open>ws.on('message', ...)\<close>. \<open>parsed\<close> is what
  \<open>JSON.parse(message)\<close> returns or throws. The result is the list of messages sent on the
  socket, and the events. The second line of the handler prints the parsed message to the
  console, before the message type is looked at; the console shows nested objects down to
  the second level, which is where the parameters of a request are, and the event holds
  the whole value. \<open>handleWebSocketMessage\<close> is not awaited, so an error it throws does not
  reach the \<open>catch\<close> of the handler.
\<close>

definition ws_on_message :: "world \<Rightarrow> solana_module \<Rightarrow> message + jsval \<Rightarrow> jsval list \<times> event list" where
  "ws_on_message w m parsed =
     (case parsed of
        Inl e \<Rightarrow>
          ([Obj [(''type'', Str ''error''), (''message'', Str ''Invalid message format'')]],
           [ConsoleLog [Str ''Error processing WebSocket message:'', Str e]])
      | Inr parsedMessage \<Rightarrow>
          if parsedMessage = Undefined \<or> parsedMessage = Null then
            ([Obj [(''type'', Str ''error''), (''message'', Str ''Invalid message format'')]],
             [ConsoleLog [Str ''Received WebSocket message:'', parsedMessage],
              ConsoleLog [Str ''Error processing WebSocket message:'', Str (null_TypeError ''type'')]])
          else if opt_prop parsedMessage ''type'' = Str ''subscribe'' then
            ([], [ConsoleLog [Str ''Received WebSocket message:'', parsedMessage]])
          else if opt_prop parsedMessage ''type'' = Str ''mcp'' then
            (case handleWebSocketMessage w m (opt_prop parsedMessage ''data'') of
               (sent, evs) \<Rightarrow>
                 ((case sent of None \<Rightarrow> [] | Some v \<Rightarrow> [v]),
                  ConsoleLog [Str ''Received WebSocket message:'', parsedMessage] # evs))
          else
            ([Obj [(''type'', Str ''error''), (''message'', Str ''Unknown message type'')]],
             [ConsoleLog [Str ''Received WebSocket message:'', parsedMessage]]))"

section \<open>routes.js: the HTTP routes\<close>

record http_response =
  status :: nat
  body :: jsval

definition res_json :: "jsval \<Rightarrow> http_response" where
  "res_json v = \<lparr>status = 200, body = v\<rparr>"

definition res_error :: "nat \<Rightarrow> string \<Rightarrow> http_response" where
  "res_error code e = \<lparr>status = code, body = Obj [(''error'', Str e)]\<rparr>"

definition route_network :: "world \<Rightarrow> solana_module \<Rightarrow> http_response \<times> event list" where
  "route_network w m =
     (case solana_getNetworkStatus w m of
        (Inr networkStatus, evs) \<Rightarrow> (res_json networkStatus, evs)
      | (Inl e, evs) \<Rightarrow> (res_error 500 e, evs))"

text \<open>
  \<open>parseInt(s)\<close> without a radix: leading white space, a sign, \<open>0x\<close> for base 16, then the longest
  run of digits; \<open>None\<close> is \<open>NaN\<close>. The result is exact, where JavaScript rounds to a double
  beyond 2^53.
\<close>

definition is_space :: "char \<Rightarrow> bool" where
  "is_space c = (c \<in> set [CHR '' '', CHR 0x09, CHR 0x0A, CHR 0x0B, CHR 0x0C, CHR 0x0D])"

definition digit_of :: "char \<Rightarrow> nat option" where
  "digit_of c =
     (let n = (of_char c :: nat)
      in if 48 \<le> n \<and> n \<le> 57 then Some (n - 48)
         else if 97 \<le> n \<and> n \<le> 122 then Some (n - 87)
         else if 65 \<le> n \<and> n \<le> 90 then Some (n - 55)
         else None)"

fun digits_prefix :: "nat \<Rightarrow> string \<Rightarrow> nat list" where
  "digits_prefix radix [] = []"
| "digits_prefix radix (c # cs) =
     (case digit_of c of
        None \<Rightarrow> []
      | Some d \<Rightarrow> if d < radix then d # digits_prefix radix cs else [])"

definition parseInt :: "string \<Rightarrow> int option" where
  "parseInt s =
     (let t = dropWhile is_space s;
          (negative, u) =
            (case t of
               [] \<Rightarrow> (False, t)
             | c # r \<Rightarrow> if c = CHR ''-'' then (True, r) else if c = CHR ''+'' then (False, r) else (False, t));
          (radix, v) =
            (case u of
               c # x # r \<Rightarrow>
                 if c = CHR ''0'' \<and> (x = CHR ''x'' \<or> x = CHR ''X'') then (16, r) else (10, u)
             | other \<Rightarrow> (10, u));
          ds = digits_prefix radix v
      in if ds = [] then None
         else Some ((if negative then - 1 else 1) * int (foldl (\<lambda>a d. a * radix + d) 0 ds)))"

text \<open>\<open>parseInt(req.query.limit) || 10\<close>; \<open>None\<close> is a request without \<open>limit\<close> in the query.\<close>

definition query_limit :: "string option \<Rightarrow> int" where
  "query_limit q =
     (case (case q of None \<Rightarrow> None | Some s \<Rightarrow> parseInt s) of
        None \<Rightarrow> 10
      | Some n \<Rightarrow> if n = 0 then 10 else n)"

definition route_transactions ::
  "world \<Rightarrow> solana_module \<Rightarrow> string \<Rightarrow> string option \<Rightarrow> http_response \<times> event list" where
  "route_transactions w m address q =
     (case PublicKey_new (sdk w) (Str address) of
        Inl e \<Rightarrow> (res_error 400 ''Invalid Solana address'', [])
      | Inr k \<Rightarrow>
          (case solana_getTransactions w m (Str address) (Num (of_int (query_limit q))) of
             (Inr transactions, evs) \<Rightarrow>
               (res_json (Obj [(''address'', Str address), (''transactions'', transactions)]), evs)
           | (Inl e, evs) \<Rightarrow> (res_error 500 e, evs)))"

text \<open>\<open>res.json({ address, ...accountInfo })\<close>: the spread overwrites or appends.\<close>

fun spread :: "(string \<times> jsval) list \<Rightarrow> jsval \<Rightarrow> (string \<times> jsval) list" where
  "spread ps (Obj qs) = foldl (\<lambda>acc (k, v). AList.update k v acc) ps qs"
| "spread ps v = ps"

definition route_account :: "world \<Rightarrow> solana_module \<Rightarrow> string \<Rightarrow> http_response \<times> event list" where
  "route_account w m address =
     (case PublicKey_new (sdk w) (Str address) of
        Inl e \<Rightarrow> (res_error 400 ''Invalid Solana address'', [])
      | Inr k \<Rightarrow>
          (case solana_getAccountInfo w m (Str address) of
             (Inr accountInfo, evs) \<Rightarrow>
               (res_json (Obj (spread [(''address'', Str address)] accountInfo)), evs)
           | (Inl e, evs) \<Rightarrow> (res_error 500 e, evs)))"

definition route_transfer :: "world \<Rightarrow> solana_module \<Rightarrow> jsval \<Rightarrow> http_response \<times> event list" where
  "route_transfer w m req_body =
     (if \<not> truthy (opt_prop req_body ''from'') \<or> \<not> truthy (opt_prop req_body ''to'') \<or>
         \<not> truthy (opt_prop req_body ''amount'') \<or> \<not> truthy (opt_prop req_body ''privateKey'')
      then (res_error 400 ''Missing required parameters'', [])
      else if isl (PublicKey_new (sdk w) (opt_prop req_body ''from'')) \<or>
              isl (PublicKey_new (sdk w) (opt_prop req_body ''to''))
      then (res_error 400 ''Invalid Solana address'', [])
      else
        (case parseFloat (sdk w) (opt_prop req_body ''amount'') of
           Num amount \<Rightarrow>
             if amount \<le> 0 then (res_error 400 ''Invalid amount'', [])
             else
               (case solana_transferSol w m (opt_prop req_body ''from'') (opt_prop req_body ''to'')
                       amount (opt_prop req_body ''privateKey'') of
                  (Inr receipt, evs) \<Rightarrow> (res_json receipt, evs)
                | (Inl e, evs) \<Rightarrow> (res_error 500 e, evs))
         | other \<Rightarrow> (res_error 400 ''Invalid amount'', [])))"

definition route_mcp_execute :: "world \<Rightarrow> solana_module \<Rightarrow> jsval \<Rightarrow> http_response \<times> event list" where
  "route_mcp_execute w m req_body =
     (case processRequest w m req_body of
        (Inr v, evs) \<Rightarrow> (res_json v, evs)
      | (Inl e, evs) \<Rightarrow> (res_error 500 e, evs))"

section \<open>mcp-server-new.js: the stdio tools\<close>

text \<open>
  A tool is registered with a zod shape. The protocol SDK validates the arguments against
  the shape and answers \<open>InvalidParams\<close> without calling the handler when they do not
  conform. \<open>Content v\<close> is the result whose text is the JSON of \<open>v\<close>; \<open>ErrorContent\<close> is a result
  with \<open>isError: true\<close>. String lengths are counted in characters of the ASCII range.
\<close>

datatype tool_result = InvalidParams | Content jsval | ErrorContent string

text \<open>\<open>z.string().min(lo).max(hi)\<close>\<close>

definition z_string :: "nat \<Rightarrow> nat \<Rightarrow> jsval \<Rightarrow> bool" where
  "z_string lo hi v = (case v of Str s \<Rightarrow> lo \<le> length s \<and> length s \<le> hi | other \<Rightarrow> False)"

text \<open>\<open>z.number().int().positive().max(100).optional().default(10)\<close>: the value the handler gets.\<close>

definition z_limit :: "jsval \<Rightarrow> jsval option" where
  "z_limit v =
     (case v of
        Undefined \<Rightarrow> Some (Num 10)
      | Num r \<Rightarrow> if r = of_int \<lfloor>r\<rfloor> \<and> 0 < r \<and> r \<le> 100 then Some (Num r) else None
      | other \<Rightarrow> None)"

text \<open>\<open>z.number().positive()\<close>\<close>

definition z_positive :: "jsval \<Rightarrow> rat option" where
  "z_positive v = (case v of Num r \<Rightarrow> if 0 < r then Some r else None | other \<Rightarrow> None)"

definition tool_reply :: "string \<Rightarrow> jsval io \<Rightarrow> tool_result \<times> event list" where
  "tool_reply prefix r =
     (case r of
        (Inr v, evs) \<Rightarrow> (Content v, evs)
      | (Inl e, evs) \<Rightarrow> (ErrorContent (prefix @ e), evs))"

definition tool_getTransactions :: "world \<Rightarrow> SolanaAPI \<Rightarrow> jsval \<Rightarrow> tool_result \<times> event list" where
  "tool_getTransactions w this args =
     (if \<not> z_string 32 44 (opt_prop args ''address'') then (InvalidParams, [])
      else
        (case z_limit (opt_prop args ''limit'') of
           None \<Rightarrow> (InvalidParams, [])
         | Some limit \<Rightarrow>
             tool_reply ''Error getting transactions: ''
               (getTransactions w this (opt_prop args ''address'') limit)))"

definition tool_getAccountInfo :: "world \<Rightarrow> SolanaAPI \<Rightarrow> jsval \<Rightarrow> tool_result \<times> event list" where
  "tool_getAccountInfo w this args =
     (if \<not> z_string 32 44 (opt_prop args ''address'') then (InvalidParams, [])
      else tool_reply ''Error getting account info: ''
             (getAccountInfo w this (opt_prop args ''address'')))"

definition tool_transferSol :: "world \<Rightarrow> SolanaAPI \<Rightarrow> jsval \<Rightarrow> tool_result \<times> event list" where
  "tool_transferSol w this args =
     (if \<not> z_string 32 44 (opt_prop args ''from'') \<or> \<not> z_string 32 44 (opt_prop args ''to'') \<or>
         \<not> z_string 87 88 (opt_prop args ''privateKey'')
      then (InvalidParams, [])
      else
        (case z_positive (opt_prop args ''amount'') of
           None \<Rightarrow> (InvalidParams, [])
         | Some amount \<Rightarrow>
             tool_reply ''Error transferring SOL: ''
               (transferSol w this (opt_prop args ''from'') (opt_prop args ''to'') amount
                  (opt_prop args ''privateKey''))))"

section \<open>pumpfun.js: creating a token\<close>

text \<open>
  The collaborators of the token flow: the HTTP services (\<open>axios.post\<close> gives the status
  and the data of the response, or throws; \<open>error_response_data\<close> is \<open>error.response?.data\<close>
  of the error with that message; \<open>status_text\<close> prints a status), the image file, the
  clock, and the SDK's transaction decoder. \<open>default_image_path\<close> is what \<open>path.resolve(__dirname, '..',
  'example/basic/random.png')\<close> yields where the server is installed.
\<close>

record web =
  axios_post :: "string \<Rightarrow> jsval \<Rightarrow> message + nat \<times> jsval"
  error_response_data :: "message \<Rightarrow> jsval"
  status_text :: "nat \<Rightarrow> string"
  fs_readFile :: "string \<Rightarrow> message + string"
  now_toISOString :: string
  default_image_path :: string
  VersionedTransaction_deserialize :: "jsval \<Rightarrow> message + jsval"
  VersionedTransaction_sign :: "jsval \<Rightarrow> string list \<Rightarrow> message option"

definition IPFS_API_URL :: string where
  "IPFS_API_URL = ''https://pump.fun/api/ipfs''"

definition TRADE_LOCAL_API_URL :: string where
  "TRADE_LOCAL_API_URL = ''https://pumpportal.fun/api/trade-local''"

text \<open>\<open>o.k\<close> where \<open>o\<close> comes from outside: reading a property of undefined or null throws.\<close>

definition member :: "jsval \<Rightarrow> string \<Rightarrow> message + jsval" where
  "member v k =
     (if v = Undefined \<or> v = Null
      then Inl (''Cannot read properties of undefined (reading '' @ k @ '')'')
      else Inr (opt_prop v k))"

definition env_val :: "env \<Rightarrow> string \<Rightarrow> jsval" where
  "env_val env k = (case env k of None \<Rightarrow> Undefined | Some v \<Rightarrow> Str v)"

definition form_field :: "string \<Rightarrow> jsval \<Rightarrow> (string \<times> jsval) list" where
  "form_field k v = (if truthy v then [(k, v)] else [])"

definition uploadToIPFS :: "web \<Rightarrow> jsval \<Rightarrow> string \<Rightarrow> jsval io" where
  "uploadToIPFS x metadata imagePath =
     rethrow ''Failed to upload to IPFS: ''
       (let fields =
              [(''name'', opt_prop metadata ''name''), (''symbol'', opt_prop metadata ''symbol'')] @
              form_field ''description'' (opt_prop metadata ''description'') @
              form_field ''twitter'' (opt_prop metadata ''twitter'') @
              form_field ''telegram'' (opt_prop metadata ''telegram'') @
              form_field ''website'' (opt_prop metadata ''website'') @
              [(''showName'', js_or (opt_prop metadata ''showName'') (Str ''true''))]
        in
        io_bind
          (if imagePath = [] then io_pure (Inr fields)
           else
             (case fs_readFile x imagePath of
                Inl e \<Rightarrow> (Inl (''Failed to read image file: '' @ e), [ReadFile imagePath])
              | Inr imageBuffer \<Rightarrow> (Inr (fields @ [(''file'', Str imageBuffer)]), [ReadFile imagePath])))
          (\<lambda>formData.
        io_bind (axios_post x IPFS_API_URL (Obj formData), [HttpPost IPFS_API_URL (Obj formData)])
          (\<lambda>(code, response_data).
        if code \<noteq> 200 then io_pure (Inl (''IPFS upload failed with status: '' @ status_text x code))
        else io_pure (Inr response_data))))"

text \<open>
  \<open>createToken\<close>. Its \<open>catch\<close> turns every error into a returned object. The payload sent to
  the trading service holds the two public keys; the transaction is then signed with both
  keypairs and sent.
\<close>

definition createToken :: "world \<Rightarrow> web \<Rightarrow> env \<Rightarrow> jsval \<Rightarrow> jsval io" where
  "createToken w x env options =
     catch_return
       (\<lambda>e. Obj [(''success'', Bool False), (''error'', Str e),
                  (''details'', error_response_data x e)])
       (io_bind (io_pure (bs58_decode (sdk w) (opt_prop options ''privateKey''))) (\<lambda>secretKey.
        io_bind (io_pure (Keypair_fromSecretKey (sdk w) secretKey)) (\<lambda>signerKeyPair.
        case Keypair_generate (sdk w) of (mintKeypair, mintSecretKey) \<Rightarrow>
        io_bind (uploadToIPFS x (opt_prop options ''metadata'')
                   (case opt_prop options ''imagePath'' of Str path \<Rightarrow> path | other \<Rightarrow> []))
          (\<lambda>ipfsResponse.
        io_bind (io_pure (member ipfsResponse ''metadata'')) (\<lambda>ipfs_metadata.
        io_bind (io_pure (member ipfs_metadata ''name'')) (\<lambda>token_name.
        io_bind (io_pure (member ipfs_metadata ''symbol'')) (\<lambda>token_symbol.
        let payload =
              Obj [(''publicKey'', Str signerKeyPair),
                   (''action'', Str ''create''),
                   (''tokenMetadata'',
                      Obj [(''name'', token_name), (''symbol'', token_symbol),
                           (''uri'', opt_prop ipfsResponse ''metadataUri'')]),
                   (''mint'', Str mintKeypair),
                   (''denominatedInSol'', Str ''true''),
                   (''amount'', js_or (opt_prop options ''amount'') (Num (1 / 10))),
                   (''slippage'', js_or (opt_prop options ''slippage'') (Num 10)),
                   (''priorityFee'', js_or (opt_prop options ''priorityFee'') (Num (5 / 10000))),
                   (''pool'', Str ''pump'')]
        in
        io_bind (axios_post x TRADE_LOCAL_API_URL payload, [HttpPost TRADE_LOCAL_API_URL payload])
          (\<lambda>(code, response_data).
        if code \<noteq> 200
        then io_pure (Inl (''Transaction creation failed with status: '' @ status_text x code))
        else
          (let rpcUrl = js_toString (sdk w)
                 (js_or (opt_prop options ''rpcUrl'') (env_val env ''HELIUS_RPC_URL''))
           in
           io_bind (option_result (Connection_new (sdk w) rpcUrl), [NewConnection rpcUrl ''confirmed''])
             (\<lambda>u.
           io_bind (io_pure (VersionedTransaction_deserialize x response_data)) (\<lambda>tx.
           io_bind (throw_option (VersionedTransaction_sign x tx [mintKeypair, signerKeyPair]))
             (\<lambda>u.
           io_bind (rpc_sendTransaction (ledger w) rpcUrl tx, [Rpc rpcUrl ''sendTransaction'' [tx]])
             (\<lambda>sent.
           io_pure (Inr (Obj [(''success'', Bool True),
                              (''transaction'', Str sent),
                              (''token'', Str mintKeypair),
                              (''tokenUrl'', Str (''https://pump.fun/'' @ mintKeypair))])))))))))))))))"

text \<open>
  \<open>createPumpFunToken\<close>. The key is the parameter, or the environment variable, or the
  literal of the source. The last fallback of \<open>rpcUrl\<close> stands in the source as the bare
  words \<open>your rpc url\<close>, a literal that was blanked out; it is taken as that string.
\<close>

definition hardcodedKey :: string where
  "hardcodedKey = ''your private key''"

definition no_private_key :: message where
  "no_private_key = ''No private key provided and PUMPFUN_PRIVATE_KEY not found in environment''"

definition createPumpFunToken_privateKey :: "env \<Rightarrow> jsval \<Rightarrow> jsval" where
  "createPumpFunToken_privateKey env params =
     js_or (opt_prop params ''privateKey'')
       (js_or (env_val env ''PUMPFUN_PRIVATE_KEY'') (Str hardcodedKey))"

definition parseInt_js :: "sdk \<Rightarrow> jsval \<Rightarrow> jsval" where
  "parseInt_js k v =
     (case parseInt (case v of Str s \<Rightarrow> s | other \<Rightarrow> js_toString k other) of
        None \<Rightarrow> NaN
      | Some n \<Rightarrow> Num (of_int n))"

definition createPumpFunToken :: "world \<Rightarrow> web \<Rightarrow> env \<Rightarrow> jsval \<Rightarrow> jsval io" where
  "createPumpFunToken w x env params =
     (if params = Undefined \<or> params = Null
      then io_pure (Inl ''Cannot read properties of undefined (reading name)'')
      else if \<not> truthy (opt_prop params ''name'') \<or> \<not> truthy (opt_prop params ''symbol'')
      then io_pure (Inl ''Missing required parameters: name and symbol must be provided'')
      else
        (let privateKey = createPumpFunToken_privateKey env params
         in
           if \<not> truthy privateKey then io_pure (Inl no_private_key)
           else
             createToken w x env
               (Obj [(''metadata'',
                        Obj [(''name'', opt_prop params ''name''),
                             (''symbol'', opt_prop params ''symbol''),
                             (''description'',
                                js_or (opt_prop params ''description'')
                                  (Str (''Created via Solana MCP on '' @ now_toISOString x))),
                             (''website'', js_or (opt_prop params ''website'') (Str [])),
                             (''twitter'', js_or (opt_prop params ''twitter'') (Str [])),
                             (''telegram'', js_or (opt_prop params ''telegram'') (Str [])),
                             (''showName'', Str ''true'')]),
                     (''privateKey'', privateKey),
                     (''imagePath'', Str (default_image_path x)),
                     (''amount'', js_or (parseFloat (sdk w) (opt_prop params ''amount'')) (Num (1 / 10))),
                     (''slippage'', js_or (parseInt_js (sdk w) (opt_prop params ''slippage'')) (Num 10)),
                     (''priorityFee'',
                        js_or (parseFloat (sdk w) (opt_prop params ''priorityFee'')) (Num (5 / 10000))),
                     (''rpcUrl'',
                        js_or (opt_prop params ''rpcUrl'')
                          (js_or (env_val env ''HELIUS_RPC_URL'') (Str ''your rpc url'')))])))"

section \<open>Example worlds\<close>

text \<open>
  Addresses and a private key for the examples. \<open>secret_C\<close> is a secret key of 64 bytes: the
  seed of the first test vector of RFC 8032 followed by its public key; \<open>key_C\<close> is its
  base58 text and \<open>address_C\<close> the base58 text of the public key. \<open>address_A\<close> and
  \<open>address_B\<close> are the base58 texts of two other 32-byte values.
\<close>

definition address_A :: string where
  "address_A = ''4Nd1mBQtrMJVYVfKf2PJy9NZUZdTAsp7D4xWLs4gDB4T''"

definition address_B :: string where
  "address_B = ''586Z7H2vpX9qNhN2T4e9Utugie3ogjbxzGaMtM3E6HR5''"

definition address_C :: string where
  "address_C = ''FVen3X669xLzsi6N2V91DoiyzHzg1uAgqiT8jZ9nS96Z''"

definition key_C :: string where
  "key_C = ''49W385L4rePHy6PAaQUovbD2aacgN4HsKXSMeUzRg4fmwXszN91JuMFrQRj3vMDpZuRF3ZknQBuRBoWQJEfXstMw''"

definition secret_C :: "nat list" where
  "secret_C =
     [157, 97, 177, 157, 239, 253, 90, 96, 186, 132, 74, 244, 146, 236, 44, 196,
      68, 73, 197, 105, 123, 50, 105, 25, 112, 59, 172, 3, 28, 174, 127, 96,
      215, 90, 152, 1, 130, 177, 10, 183, 213, 75, 254, 211, 201, 100, 7, 58,
      14, 225, 114, 243, 218, 166, 35, 37, 175, 2, 26, 104, 247, 7, 81, 26]"

text \<open>
  \<open>sdk0\<close> answers as the SDK does on the values of the examples: it accepts every endpoint
  URL, the three addresses as public keys, and the one private key; its product is exact,
  as the double product is on the operands used here. \<open>ledger_down\<close> is a network where
  every remote call fails. The examples below change them pointwise.
\<close>

definition sdk0 :: sdk where
  "sdk0 =
     \<lparr>Connection_new = (\<lambda>e. None),
      PublicKey_new =
        (\<lambda>v. if v = Str address_A then Inr address_A
             else if v = Str address_B then Inr address_B
             else if v = Str address_C then Inr address_C
             else Inl ''Invalid public key input''),
      bs58_decode = (\<lambda>v. if v = Str key_C then Inr secret_C else Inl ''Non-base58 character''),
      bs58_encode = (\<lambda>bs. if bs = secret_C then key_C else []),
      Keypair_fromSecretKey =
        (\<lambda>bs. if bs = secret_C then Inr address_C else Inl ''bad secret key size''),
      Keypair_generate = (address_C, secret_C),
      SystemProgram_transfer = (\<lambda>a b l. None),
      Transaction_sign = (\<lambda>t. None),
      Date_toISOString = (\<lambda>ms. Inr ''1970-01-01T00:00:00.000Z''),
      parseFloat = (\<lambda>v. case v of Num r \<Rightarrow> Num r | _ \<Rightarrow> NaN),
      js_toString = (\<lambda>v. case v of Str s \<Rightarrow> s | _ \<Rightarrow> ''[value]''),
      double_times = (\<lambda>a b. a * b)\<rparr>"

definition ledger_down :: ledger where
  "ledger_down =
     \<lparr>rpc_getSlot = (\<lambda>e. Inl ''fetch failed''),
      rpc_getVersion = (\<lambda>e. Inl ''fetch failed''),
      rpc_getBlockTime = (\<lambda>e s. Inl ''fetch failed''),
      rpc_getHealth = (\<lambda>e. Inl ''fetch failed''),
      rpc_getSupply = (\<lambda>e. Inl ''fetch failed''),
      rpc_getBalance = (\<lambda>e a. Inl ''fetch failed''),
      rpc_getAccountInfo = (\<lambda>e a. Inl ''fetch failed''),
      rpc_getSignaturesForAddress = (\<lambda>e a l. Inl ''fetch failed''),
      rpc_getLatestBlockhash = (\<lambda>e. Inl ''fetch failed''),
      rpc_sendRawTransaction = (\<lambda>e t. Inl ''fetch failed''),
      rpc_sendTransaction = (\<lambda>e t. Inl ''fetch failed''),
      rpc_sendAndConfirmTransaction = (\<lambda>e t. Inl ''fetch failed''),
      rpc_confirmTransaction = (\<lambda>e t. Some ''fetch failed''),
      rpc_getParsedTokenAccountsByOwner = (\<lambda>e a. Inl ''fetch failed'')\<rparr>"

definition world_down :: world where
  "world_down = \<lparr>sdk = sdk0, ledger = ledger_down\<rparr>"

text \<open>Only the third mainnet endpoint answers the probe.\<close>

definition world_third_up :: world where
  "world_third_up =
     \<lparr>sdk = sdk0,
      ledger = ledger_down\<lparr>rpc_getSlot :=
        (\<lambda>e. if e = ''https://rpc.ankr.com/solana'' then Inr 5 else Inl ''fetch failed'')\<rparr>\<rparr>"

text \<open>The third mainnet endpoint serves balances: every account holds 42 lamports.\<close>

definition world_balance_up :: world where
  "world_balance_up =
     \<lparr>sdk = sdk0,
      ledger = ledger_down\<lparr>rpc_getBalance :=
        (\<lambda>e a. if e = ''https://rpc.ankr.com/solana'' then Inr 42 else Inl ''fetch failed'')\<rparr>\<rparr>"

text \<open>Of the two devnet endpoints, only the first answers.\<close>

definition world_devnet_first_up :: world where
  "world_devnet_first_up =
     \<lparr>sdk = sdk0,
      ledger = ledger_down\<lparr>rpc_getSlot :=
        (\<lambda>e. if e = ''https://api.devnet.solana.com'' then Inr 5 else Inl ''fetch failed'')\<rparr>\<rparr>"

text \<open>A network that accepts and confirms every transaction.\<close>

definition world_transfers :: world where
  "world_transfers =
     \<lparr>sdk = sdk0
        \<lparr>js_toString :=
           (\<lambda>v. case v of Str s \<Rightarrow> s | Num r \<Rightarrow> if r = 1 then ''1'' else ''[number]''
                 | other \<Rightarrow> ''[value]'')\<rparr>,
      ledger = ledger_down
        \<lparr>rpc_getLatestBlockhash := (\<lambda>e. Inr (''blockhash1'', 100)),
         rpc_sendRawTransaction := (\<lambda>e t. Inr ''signature1''),
         rpc_sendTransaction := (\<lambda>e t. Inr ''signature1''),
         rpc_sendAndConfirmTransaction := (\<lambda>e t. Inr ''signature1''),
         rpc_confirmTransaction := (\<lambda>e t. None)\<rparr>\<rparr>"

text \<open>A ledger on which no account exists.\<close>

definition world_no_accounts :: world where
  "world_no_accounts =
     \<lparr>sdk = sdk0,
      ledger = ledger_down
        \<lparr>rpc_getAccountInfo := (\<lambda>e a. Inr None),
         rpc_getBalance := (\<lambda>e a. Inr 0)\<rparr>\<rparr>"

text \<open>A ledger that serves signature lists (empty ones).\<close>

definition world_history :: world where
  "world_history =
     \<lparr>sdk = sdk0,
      ledger = ledger_down\<lparr>rpc_getSignaturesForAddress := (\<lambda>e a l. Inr [])\<rparr>\<rparr>"

text \<open>A node that answers every status query except \<open>getSupply\<close>.\<close>

definition world_no_supply :: world where
  "world_no_supply =
     \<lparr>sdk = sdk0\<lparr>Date_toISOString := (\<lambda>ms. Inr ''2023-11-14T22:13:20.000Z'')\<rparr>,
      ledger = ledger_down
        \<lparr>rpc_getSlot := (\<lambda>e. Inr 1000),
         rpc_getVersion := (\<lambda>e. Inr (Obj [(''solana-core'', Str ''1.18.0'')])),
         rpc_getBlockTime := (\<lambda>e s. Inr (Some 1700000000)),
         rpc_getHealth := (\<lambda>e. Inr (Str ''ok''))\<rparr>\<rparr>"

text \<open>The states of the two servers once connected.\<close>

definition api_connected :: SolanaAPI where
  "api_connected =
     \<lparr>connection = Some ''https://api.mainnet-beta.solana.com'', connected = True,
      lastConnectionCheck = 1000\<rparr>"

definition module_connected :: solana_module where
  "module_connected =
     \<lparr>module_connection = Some ''https://devnet.genesysgo.net'', module_network = ''devnet''\<rparr>"

text \<open>Services that answer nothing.\<close>

definition web_down :: web where
  "web_down =
     \<lparr>axios_post = (\<lambda>url v. Inl ''connect ECONNREFUSED''),
      error_response_data = (\<lambda>e. Undefined),
      status_text = (\<lambda>n. if n = 200 then ''200'' else ''204''),
      fs_readFile = (\<lambda>p. Inl ''ENOENT: no such file or directory''),
      now_toISOString = ''2025-03-15T00:00:00.000Z'',
      default_image_path = ''/srv/solana-mcp/example/basic/random.png'',
      VersionedTransaction_deserialize = (\<lambda>v. Inl ''invalid transaction''),
      VersionedTransaction_sign = (\<lambda>t ks. None)\<rparr>"

section \<open>Properties of the connection routines\<close>

lemmas io_defs = io_bind_def io_pure_def rethrow_def throw_option_def option_result_def conn_call_def

lemma initConnection_loop_none_live:
  "list_all (\<lambda>e. \<not> live w e) es \<Longrightarrow>
     connected (fst (initConnection_loop w c now es this)) = connected this \<and>
     lastConnectionCheck (fst (initConnection_loop w c now es this)) = lastConnectionCheck this \<and>
     attempts (snd (initConnection_loop w c now es this)) = es"
proof (induction es arbitrary: this)
  case Nil
  show ?case by simp
next
  case (Cons e es)
  from Cons.prems have bad: "\<not> live w e" and rest: "list_all (\<lambda>e. \<not> live w e) es"
    by simp_all
  show ?case
  proof (cases "Connection_new (sdk w) e")
    case (Some m)
    with Cons.IH [OF rest, of this] show ?thesis
      by (simp add: split_def Let_def)
  next
    case None
    with bad obtain m where probe: "rpc_getSlot (ledger w) e = Inl m"
      by (cases "rpc_getSlot (ledger w) e") (auto simp: live_def)
    from Cons.IH [OF rest, of "this\<lparr>connection := Some e\<rparr>"] None probe show ?thesis
      by (simp add: split_def Let_def)
  qed
qed

lemma initConnection_loop_first_live:
  "list_all (\<lambda>e. \<not> live w e) bad \<Longrightarrow> live w good \<Longrightarrow>
     fst (initConnection_loop w c now (bad @ good # rest) this) =
       this\<lparr>connection := Some good, connected := True, lastConnectionCheck := now\<rparr> \<and>
     attempts (snd (initConnection_loop w c now (bad @ good # rest) this)) = bad @ [good]"
proof (induction bad arbitrary: this)
  case Nil
  then obtain s where "Connection_new (sdk w) good = None" "rpc_getSlot (ledger w) good = Inr s"
    by (cases "rpc_getSlot (ledger w) good") (auto simp: live_def)
  then show ?case by simp
next
  case (Cons e bad)
  from Cons.prems have bad: "\<not> live w e" and rest: "list_all (\<lambda>e. \<not> live w e) bad"
    by simp_all
  show ?case
  proof (cases "Connection_new (sdk w) e")
    case (Some m)
    with Cons.IH [OF rest Cons.prems(2), of this] show ?thesis
      by (simp add: split_def Let_def)
  next
    case None
    with bad obtain m where probe: "rpc_getSlot (ledger w) e = Inl m"
      by (cases "rpc_getSlot (ledger w) e") (auto simp: live_def)
    from Cons.IH [OF rest Cons.prems(2), of "this\<lparr>connection := Some e\<rparr>"] None probe
    show ?thesis
      by (simp add: split_def Let_def)
  qed
qed

text \<open>
  The pool of three with only the third endpoint live: \<open>initConnection\<close> ends on the third
  endpoint after three attempts, in the configured order.
\<close>

lemma initConnection_bad_bad_good:
  "initConnection Map.empty world_third_up 1000 SolanaAPI_new =
     (\<lparr>connection = Some ''https://rpc.ankr.com/solana'', connected = True,
       lastConnectionCheck = 1000\<rparr>,
      [NewConnection ''https://api.mainnet-beta.solana.com'' ''confirmed'',
       Rpc ''https://api.mainnet-beta.solana.com'' ''getSlot'' [],
       NewConnection ''https://solana-api.projectserum.com'' ''confirmed'',
       Rpc ''https://solana-api.projectserum.com'' ''getSlot'' [],
       NewConnection ''https://rpc.ankr.com/solana'' ''confirmed'',
       Rpc ''https://rpc.ankr.com/solana'' ''getSlot'' []])"
  by (simp add: initConnection_def initConnection_endpoints_def config_solana_endpoints_def
      config_solana_commitment_def network_def env_or_def world_third_up_def sdk0_def
      ledger_down_def SolanaAPI_new_def)

lemma initConnection_loop_connected:
  "connected (fst (initConnection_loop w c now es this)) = (connected this \<or> list_ex (live w) es)"
proof (induction es arbitrary: this)
  case Nil
  show ?case by simp
next
  case (Cons e es)
  show ?case
  proof (cases "Connection_new (sdk w) e")
    case (Some m)
    with Cons.IH [of this] show ?thesis
      by (simp add: split_def Let_def live_def)
  next
    case None
    show ?thesis
    proof (cases "rpc_getSlot (ledger w) e")
      case (Inl m)
      with None Cons.IH [of "this\<lparr>connection := Some e\<rparr>"] show ?thesis
        by (simp add: split_def Let_def live_def)
    next
      case (Inr s)
      with None show ?thesis
        by (simp add: live_def)
    qed
  qed
qed

lemma conn_call_getSlot_ok:
  "probe_ok w this \<Longrightarrow>
     \<exists>s. conn_call (connection this) ''getSlot'' [] (rpc_getSlot (ledger w)) = (Inr s, probe_events this)"
  by (cases "connection this"; cases "rpc_getSlot (ledger w) (the (connection this))")
     (auto simp: probe_ok_def probe_events_def conn_call_def)

lemma conn_call_getSlot_fails:
  "\<not> probe_ok w this \<Longrightarrow>
     \<exists>m. conn_call (connection this) ''getSlot'' [] (rpc_getSlot (ledger w)) = (Inl m, probe_events this)"
  by (cases "connection this"; cases "rpc_getSlot (ledger w) (the (connection this))")
     (auto simp: probe_ok_def probe_events_def conn_call_def)

section \<open>The health check\<close>

text \<open>
  Claim C3. An invocation of \<open>checkConnectionHealth\<close> less than 10000 ms after the last
  recorded check changes no field and sends nothing. Any other invocation probes the
  active endpoint with \<open>getSlot\<close>. When the probe answers, the connected flag is set and the
  time of the check recorded. When the probe fails (or there is no handle to probe), the
  flag is cleared and \<open>initConnection\<close> runs at once on the cleared state, so that the flag
  ends up set exactly when some endpoint of the pool is live; the time of the check is
  recorded after that.
\<close>

theorem checkConnectionHealth_debounce_probe_failover:
  "(t0 - lastConnectionCheck this < 10000 \<longrightarrow>
      checkConnectionHealth env t0 w w' t1 t2 this = (this, [])) \<and>
   (\<not> t0 - lastConnectionCheck this < 10000 \<and> probe_ok w this \<longrightarrow>
      checkConnectionHealth env t0 w w' t1 t2 this =
        (this\<lparr>connected := True, lastConnectionCheck := t2\<rparr>, probe_events this)) \<and>
   (\<not> t0 - lastConnectionCheck this < 10000 \<and> \<not> probe_ok w this \<longrightarrow>
      checkConnectionHealth env t0 w w' t1 t2 this =
        ((fst (initConnection env w' t1 (this\<lparr>connected := False\<rparr>)))\<lparr>lastConnectionCheck := t2\<rparr>,
         probe_events this @ snd (initConnection env w' t1 (this\<lparr>connected := False\<rparr>))) \<and>
      connected (fst (checkConnectionHealth env t0 w w' t1 t2 this)) =
        list_ex (live w') (initConnection_endpoints env))"
proof (intro conjI impI)
  assume "t0 - lastConnectionCheck this < 10000"
  then show "checkConnectionHealth env t0 w w' t1 t2 this = (this, [])"
    by (simp add: checkConnectionHealth_def)
next
  assume a: "\<not> t0 - lastConnectionCheck this < 10000 \<and> probe_ok w this"
  then obtain s where
    "conn_call (connection this) ''getSlot'' [] (rpc_getSlot (ledger w)) = (Inr s, probe_events this)"
    using conn_call_getSlot_ok by blast
  with a show "checkConnectionHealth env t0 w w' t1 t2 this =
      (this\<lparr>connected := True, lastConnectionCheck := t2\<rparr>, probe_events this)"
    by (simp add: checkConnectionHealth_def)
next
  assume a: "\<not> t0 - lastConnectionCheck this < 10000 \<and> \<not> probe_ok w this"
  then obtain m where
    "conn_call (connection this) ''getSlot'' [] (rpc_getSlot (ledger w)) = (Inl m, probe_events this)"
    using conn_call_getSlot_fails by blast
  with a have run: "checkConnectionHealth env t0 w w' t1 t2 this =
      ((fst (initConnection env w' t1 (this\<lparr>connected := False\<rparr>)))\<lparr>lastConnectionCheck := t2\<rparr>,
       probe_events this @ snd (initConnection env w' t1 (this\<lparr>connected := False\<rparr>)))"
    by (simp add: checkConnectionHealth_def split_def Let_def)
  then show "checkConnectionHealth env t0 w w' t1 t2 this =
      ((fst (initConnection env w' t1 (this\<lparr>connected := False\<rparr>)))\<lparr>lastConnectionCheck := t2\<rparr>,
       probe_events this @ snd (initConnection env w' t1 (this\<lparr>connected := False\<rparr>)))" .
  from run show "connected (fst (checkConnectionHealth env t0 w w' t1 t2 this)) =
      list_ex (live w') (initConnection_endpoints env)"
    by (simp add: initConnection_def initConnection_loop_connected)
qed

theorem checkConnectionHealth_debounce_probe_failover_witness:
  "checkConnectionHealth Map.empty 9000 world_down world_down 9001 9002
       (SolanaAPI_new\<lparr>lastConnectionCheck := 5000\<rparr>) =
     (SolanaAPI_new\<lparr>lastConnectionCheck := 5000\<rparr>, []) \<and>
   checkConnectionHealth Map.empty 20000 world_third_up world_down 20001 20002
       \<lparr>connection = Some ''https://rpc.ankr.com/solana'', connected = False,
        lastConnectionCheck = 0\<rparr> =
     (\<lparr>connection = Some ''https://rpc.ankr.com/solana'', connected = True,
       lastConnectionCheck = 20002\<rparr>,
      [Rpc ''https://rpc.ankr.com/solana'' ''getSlot'' []]) \<and>
   connected (fst (checkConnectionHealth Map.empty 20000 world_down world_third_up 20001 20002
       \<lparr>connection = Some ''https://api.mainnet-beta.solana.com'', connected = True,
        lastConnectionCheck = 0\<rparr>))"
proof -
  let ?a = "SolanaAPI_new\<lparr>lastConnectionCheck := 5000\<rparr>"
  let ?b = "\<lparr>connection = Some ''https://rpc.ankr.com/solana'', connected = False,
             lastConnectionCheck = 0\<rparr>"
  let ?c = "\<lparr>connection = Some ''https://api.mainnet-beta.solana.com'', connected = True,
             lastConnectionCheck = 0\<rparr>"
  have ha: "9000 - lastConnectionCheck ?a < 10000"
    by (simp add: SolanaAPI_new_def)
  have hb: "\<not> 20000 - lastConnectionCheck ?b < 10000 \<and> probe_ok world_third_up ?b"
    by (simp add: probe_ok_def world_third_up_def)
  have hc: "\<not> 20000 - lastConnectionCheck ?c < 10000 \<and> \<not> probe_ok world_down ?c"
    by (simp add: probe_ok_def world_down_def ledger_down_def)
  have up: "list_ex (live world_third_up) (initConnection_endpoints Map.empty)"
    by (simp add: initConnection_endpoints_def config_solana_endpoints_def network_def
        env_or_def live_def world_third_up_def sdk0_def)
  from checkConnectionHealth_debounce_probe_failover
         [where ?t0.0 = 9000 and this = ?a and env = Map.empty and w = world_down
            and w' = world_down and ?t1.0 = 9001 and ?t2.0 = 9002] ha
  have 1: "checkConnectionHealth Map.empty 9000 world_down world_down 9001 9002 ?a = (?a, [])"
    by blast
  from checkConnectionHealth_debounce_probe_failover
         [where ?t0.0 = 20000 and this = ?b and env = Map.empty and w = world_third_up
            and w' = world_down and ?t1.0 = 20001 and ?t2.0 = 20002] hb
  have 2: "checkConnectionHealth Map.empty 20000 world_third_up world_down 20001 20002 ?b =
      (?b\<lparr>connected := True, lastConnectionCheck := 20002\<rparr>, probe_events ?b)"
    by blast
  from checkConnectionHealth_debounce_probe_failover
         [where ?t0.0 = 20000 and this = ?c and env = Map.empty and w = world_down
            and w' = world_third_up and ?t1.0 = 20001 and ?t2.0 = 20002] hc up
  have 3: "connected (fst (checkConnectionHealth Map.empty 20000 world_down world_third_up
      20001 20002 ?c))"
    by blast
  from 1 2 3 show ?thesis
    by (simp add: probe_events_def)
qed

section \<open>Connecting\<close>

text \<open>
  What the loop of \<open>initialize\<close> does on every pool: it opens a connection to each endpoint
  in turn, whatever the probes will answer, and leaves \<open>connected\<close> false.
\<close>

lemma initialize_loop_tries_all:
  "attempts (snd (initialize_loop w es conn False cerr)) = es \<and>
   fst (snd (fst (initialize_loop w es conn False cerr))) = False"
proof (induction es arbitrary: conn cerr)
  case Nil
  show ?case by simp
next
  case (Cons e es)
  show ?case
  proof (cases "Connection_new (sdk w) e")
    case (Some m)
    with Cons [of conn "Some m"] show ?thesis
      by (simp add: split_def Let_def)
  next
    case None
    with Cons [of "Some e" cerr] show ?thesis
      by (simp add: split_def Let_def)
  qed
qed

lemma initialize_loop_keeps_last:
  "list_all (\<lambda>e. Connection_new (sdk w) e = None) es \<Longrightarrow> es \<noteq> [] \<Longrightarrow>
     fst (fst (initialize_loop w es conn False cerr)) = Some (last es)"
proof (induction es arbitrary: conn)
  case Nil
  then show ?case by simp
next
  case (Cons e es)
  then show ?case
    by (cases es) (simp_all add: split_def Let_def)
qed

text \<open>
  Claim C1, on \<open>initialize\<close> of solana.js, at the default network devnet with the first
  endpoint live and the second one down. The first endpoint answers its probe, and still
  a connection to the second endpoint is opened and is the one the module keeps.
\<close>

theorem initialize_keeps_last_endpoint:
  "live world_devnet_first_up ''https://api.devnet.solana.com'' \<and>
   \<not> live world_devnet_first_up ''https://devnet.genesysgo.net'' \<and>
   initialize Map.empty world_devnet_first_up solana_module_loaded None =
     Inr (\<lparr>module_connection = Some ''https://devnet.genesysgo.net'', module_network = ''devnet''\<rparr>,
          [NewConnection ''https://api.devnet.solana.com'' ''confirmed'',
           Rpc ''https://api.devnet.solana.com'' ''getSlot'' [],
           NewConnection ''https://devnet.genesysgo.net'' ''confirmed'',
           Rpc ''https://devnet.genesysgo.net'' ''getSlot'' []])"
  by (simp add: live_def world_devnet_first_up_def sdk0_def ledger_down_def initialize_def
      rpcEndpoints_for_def rpcEndpoints_def env_or_def solana_module_loaded_def)

lemma initConnection_loop_attempts_prefix:
  "attempts (snd (initConnection_loop w c now es this)) =
     take (length (attempts (snd (initConnection_loop w c now es this)))) es"
proof (induction es arbitrary: this)
  case Nil
  show ?case by simp
next
  case (Cons e es)
  show ?case
  proof (cases "Connection_new (sdk w) e")
    case (Some m)
    with Cons [of this] show ?thesis
      by (simp add: split_def Let_def)
  next
    case None
    show ?thesis
    proof (cases "rpc_getSlot (ledger w) e")
      case (Inl m)
      with None Cons [of "this\<lparr>connection := Some e\<rparr>"] show ?thesis
        by (simp add: split_def Let_def)
    next
      case (Inr s)
      with None show ?thesis by simp
    qed
  qed
qed

section \<open>The network the class connects to\<close>

text \<open>
  Claim C7 as stated fails. With \<open>SOLANA_NETWORK=devnet\<close> the configuration selects devnet
  and lists the two devnet endpoints for it, and \<open>initConnection\<close> opens its connections
  to the three mainnet-beta endpoints.
\<close>

theorem initConnection_ignores_SOLANA_NETWORK_counterexample:
  "config_solana_network [''SOLANA_NETWORK'' \<mapsto> ''devnet''] = ''devnet'' \<and>
   map_of (config_solana_endpoints [''SOLANA_NETWORK'' \<mapsto> ''devnet'']) ''devnet'' =
     Some [''https://api.devnet.solana.com'', ''https://devnet.genesysgo.net''] \<and>
   attempts (snd (initConnection [''SOLANA_NETWORK'' \<mapsto> ''devnet''] world_down 1000 SolanaAPI_new)) =
     [''https://api.mainnet-beta.solana.com'', ''https://solana-api.projectserum.com'',
      ''https://rpc.ankr.com/solana'']"
  by (simp add: config_solana_network_def config_solana_endpoints_def env_or_def
      initConnection_def initConnection_endpoints_def network_def world_down_def sdk0_def
      ledger_down_def SolanaAPI_new_def config_solana_commitment_def)

text \<open>
  Claim C7, amended. The class SolanaAPI connects to the mainnet-beta endpoint list
  whatever the environment selects: the pool of \<open>initConnection\<close> is the mainnet-beta list of
  the configuration, in which the environment decides only the first URL
  (\<open>MAINNET_RPC_URL\<close>); changing or unsetting \<open>SOLANA_NETWORK\<close> does not change the pool;
  and the connections \<open>initConnection\<close> opens are an initial segment of that pool.
\<close>

theorem initConnection_pool_is_mainnet:
  "initConnection_endpoints env =
     [env_or env ''MAINNET_RPC_URL'' ''https://api.mainnet-beta.solana.com'',
      ''https://solana-api.projectserum.com'', ''https://rpc.ankr.com/solana''] \<and>
   initConnection_endpoints (env(''SOLANA_NETWORK'' := v)) = initConnection_endpoints env \<and>
   attempts (snd (initConnection env w now this)) =
     take (length (attempts (snd (initConnection env w now this)))) (initConnection_endpoints env)"
proof (intro conjI)
  show "initConnection_endpoints env =
     [env_or env ''MAINNET_RPC_URL'' ''https://api.mainnet-beta.solana.com'',
      ''https://solana-api.projectserum.com'', ''https://rpc.ankr.com/solana'']"
    by (simp add: initConnection_endpoints_def config_solana_endpoints_def network_def)
  show "initConnection_endpoints (env(''SOLANA_NETWORK'' := v)) = initConnection_endpoints env"
    by (simp add: initConnection_endpoints_def config_solana_endpoints_def network_def env_or_def)
  show "attempts (snd (initConnection env w now this)) =
     take (length (attempts (snd (initConnection env w now this)))) (initConnection_endpoints env)"
    unfolding initConnection_def by (rule initConnection_loop_attempts_prefix)
qed

theorem initConnection_pool_is_mainnet_witness:
  "initConnection_endpoints [''SOLANA_NETWORK'' \<mapsto> ''testnet''] =
     [''https://api.mainnet-beta.solana.com'', ''https://solana-api.projectserum.com'',
      ''https://rpc.ankr.com/solana'']"
  using initConnection_pool_is_mainnet [of "[''SOLANA_NETWORK'' \<mapsto> ''testnet'']"]
  by (simp add: env_or_def)

section \<open>The degraded mode\<close>

lemma getBalance_error_is_wrapped:
  "fst (getBalance w this address) = Inl m \<Longrightarrow> \<exists>m'. m = ''Failed to get balance: '' @ m'"
  by (auto simp: getBalance_def rethrow_def io_bind_def io_pure_def conn_call_def
      split: sum.splits prod.splits option.splits)

lemma getBalance_ok:
  "PublicKey_new (sdk w) address = Inr pubkey \<Longrightarrow> connection this = Some e \<Longrightarrow>
   rpc_getBalance (ledger w) e pubkey = Inr balance \<Longrightarrow>
     getBalance w this address =
       (Inr (Obj [(''address'', address),
                  (''balanceInLamports'', Num (of_nat balance)),
                  (''balanceInSol'', Num (of_nat balance / LAMPORTS_PER_SOL))]),
        [Rpc e ''getBalance'' [Str pubkey]])"
  by (simp add: getBalance_def rethrow_def io_bind_def io_pure_def conn_call_def)

text \<open>
  Claim C2 as stated fails. Every probe of \<open>initConnection\<close> fails and the flag stays false;
  a later \<open>getBalance\<close>, in a world where the last endpoint serves balances again, is sent
  to that endpoint and returns the balance. While the endpoints are still down, the call
  throws the transport's message behind the prefix of \<open>getBalance\<close>.
\<close>

theorem getBalance_degraded_counterexample:
  "\<not> live world_down ''https://api.mainnet-beta.solana.com'' \<and>
   \<not> live world_down ''https://solana-api.projectserum.com'' \<and>
   \<not> live world_down ''https://rpc.ankr.com/solana'' \<and>
   \<not> connected (fst (initConnection Map.empty world_down 1000 SolanaAPI_new)) \<and>
   getBalance world_balance_up (fst (initConnection Map.empty world_down 1000 SolanaAPI_new))
       (Str ''4Nd1mBQtrMJVYVfKf2PJy9NZUZdTAsp7D4xWLs4gDB4T'') =
     (Inr (Obj [(''address'', Str ''4Nd1mBQtrMJVYVfKf2PJy9NZUZdTAsp7D4xWLs4gDB4T''),
                (''balanceInLamports'', Num 42),
                (''balanceInSol'', Num (42 / 1000000000))]),
      [Rpc ''https://rpc.ankr.com/solana'' ''getBalance''
         [Str ''4Nd1mBQtrMJVYVfKf2PJy9NZUZdTAsp7D4xWLs4gDB4T'']]) \<and>
   fst (getBalance world_down (fst (initConnection Map.empty world_down 1000 SolanaAPI_new))
       (Str ''4Nd1mBQtrMJVYVfKf2PJy9NZUZdTAsp7D4xWLs4gDB4T'')) =
     Inl ''Failed to get balance: fetch failed''"
  by (simp add: live_def world_down_def world_balance_up_def sdk0_def ledger_down_def
      initConnection_def initConnection_endpoints_def config_solana_endpoints_def
      config_solana_commitment_def network_def env_or_def SolanaAPI_new_def getBalance_def
      rethrow_def io_bind_def io_pure_def conn_call_def LAMPORTS_PER_SOL_def address_A_def)

lemma initConnection_loop_handle_left:
  "list_all (\<lambda>e. \<not> live w e) es \<Longrightarrow>
     connection (fst (initConnection_loop w c now es this)) =
       (if filter (\<lambda>e. Connection_new (sdk w) e = None) es = [] then connection this
        else Some (last (filter (\<lambda>e. Connection_new (sdk w) e = None) es)))"
proof (induction es arbitrary: this)
  case Nil
  show ?case by simp
next
  case (Cons e es)
  from Cons.prems have bad: "\<not> live w e" and rest: "list_all (\<lambda>e. \<not> live w e) es"
    by simp_all
  show ?case
  proof (cases "Connection_new (sdk w) e")
    case (Some m)
    with Cons.IH [OF rest, of this] show ?thesis
      by (simp add: split_def Let_def)
  next
    case None
    with bad obtain m where probe: "rpc_getSlot (ledger w) e = Inl m"
      by (cases "rpc_getSlot (ledger w) e") (auto simp: live_def)
    from Cons.IH [OF rest, of "this\<lparr>connection := Some e\<rparr>"] None probe show ?thesis
      by (simp add: split_def Let_def)
  qed
qed

lemma getBalance_cases:
  "getBalance w this address =
     (case PublicKey_new (sdk w) address of
        Inl cause \<Rightarrow> (Inl (''Failed to get balance: '' @ cause), [])
      | Inr k \<Rightarrow>
          (case connection this of
             None \<Rightarrow> (Inl (''Failed to get balance: '' @ null_TypeError ''getBalance''), [])
           | Some e \<Rightarrow>
               (case rpc_getBalance (ledger w) e k of
                  Inl cause \<Rightarrow>
                    (Inl (''Failed to get balance: '' @ cause), [Rpc e ''getBalance'' [Str k]])
                | Inr n \<Rightarrow>
                    (Inr (Obj [(''address'', address),
                               (''balanceInLamports'', Num (of_nat n)),
                               (''balanceInSol'', Num (of_nat n / LAMPORTS_PER_SOL))]),
                     [Rpc e ''getBalance'' [Str k]]))))"
  by (simp add: getBalance_def io_defs split: sum.splits option.splits)

text \<open>
  Claim C2, amended. When every probe fails, \<open>initConnection\<close> returns with the connected
  flag false, and the handle it leaves is that of the last endpoint of the pool whose
  connection object could be built, or none when no object could be built. A later
  \<open>getBalance\<close> does not read the flag. When the address is not a public key it throws
  \<open>Failed to get balance: \<close> followed by the message of the constructor; when there is no
  handle it throws the same prefix followed by the message of the TypeError; otherwise it
  sends \<open>getBalance\<close> to the endpoint of the handle, and returns the balance object when the
  endpoint answers, or throws the prefix followed by the message of the failure when it
  does not.
\<close>

theorem getBalance_after_failed_connect:
  assumes "list_all (\<lambda>e. \<not> live w e) (initConnection_endpoints env)"
    and "d = fst (initConnection env w now SolanaAPI_new)"
  shows "\<not> connected d \<and>
     connection d =
       (if filter (\<lambda>e. Connection_new (sdk w) e = None) (initConnection_endpoints env) = []
        then None
        else Some (last (filter (\<lambda>e. Connection_new (sdk w) e = None)
                           (initConnection_endpoints env)))) \<and>
     getBalance w' (d\<lparr>connected := b\<rparr>) address = getBalance w' d address \<and>
     getBalance w' d address =
       (case PublicKey_new (sdk w') address of
          Inl cause \<Rightarrow> (Inl (''Failed to get balance: '' @ cause), [])
        | Inr k \<Rightarrow>
            (case connection d of
               None \<Rightarrow> (Inl (''Failed to get balance: '' @ null_TypeError ''getBalance''), [])
             | Some e \<Rightarrow>
                 (case rpc_getBalance (ledger w') e k of
                    Inl cause \<Rightarrow>
                      (Inl (''Failed to get balance: '' @ cause), [Rpc e ''getBalance'' [Str k]])
                  | Inr n \<Rightarrow>
                      (Inr (Obj [(''address'', address),
                                 (''balanceInLamports'', Num (of_nat n)),
                                 (''balanceInSol'', Num (of_nat n / LAMPORTS_PER_SOL))]),
                       [Rpc e ''getBalance'' [Str k]]))))"
proof (intro conjI)
  from initConnection_loop_none_live [OF assms(1)] assms(2)
  show "\<not> connected d"
    by (simp add: initConnection_def SolanaAPI_new_def)
  from initConnection_loop_handle_left [OF assms(1)] assms(2)
  show "connection d =
       (if filter (\<lambda>e. Connection_new (sdk w) e = None) (initConnection_endpoints env) = []
        then None
        else Some (last (filter (\<lambda>e. Connection_new (sdk w) e = None)
                           (initConnection_endpoints env))))"
    by (simp add: initConnection_def SolanaAPI_new_def)
  show "getBalance w' (d\<lparr>connected := b\<rparr>) address = getBalance w' d address"
    by (simp add: getBalance_def)
  show "getBalance w' d address =
       (case PublicKey_new (sdk w') address of
          Inl cause \<Rightarrow> (Inl (''Failed to get balance: '' @ cause), [])
        | Inr k \<Rightarrow>
            (case connection d of
               None \<Rightarrow> (Inl (''Failed to get balance: '' @ null_TypeError ''getBalance''), [])
             | Some e \<Rightarrow>
                 (case rpc_getBalance (ledger w') e k of
                    Inl cause \<Rightarrow>
                      (Inl (''Failed to get balance: '' @ cause), [Rpc e ''getBalance'' [Str k]])
                  | Inr n \<Rightarrow>
                      (Inr (Obj [(''address'', address),
                                 (''balanceInLamports'', Num (of_nat n)),
                                 (''balanceInSol'', Num (of_nat n / LAMPORTS_PER_SOL))]),
                       [Rpc e ''getBalance'' [Str k]]))))"
    by (rule getBalance_cases)
qed

theorem getBalance_after_failed_connect_witness:
  "\<not> connected (fst (initConnection Map.empty world_down 1000 SolanaAPI_new)) \<and>
   connection (fst (initConnection Map.empty world_down 1000 SolanaAPI_new)) =
     Some ''https://rpc.ankr.com/solana'' \<and>
   getBalance world_balance_up (fst (initConnection Map.empty world_down 1000 SolanaAPI_new))
       (Str address_A) =
     (Inr (Obj [(''address'', Str address_A),
                (''balanceInLamports'', Num 42),
                (''balanceInSol'', Num (42 / 1000000000))]),
      [Rpc ''https://rpc.ankr.com/solana'' ''getBalance'' [Str address_A]]) \<and>
   getBalance world_down (fst (initConnection Map.empty world_down 1000 SolanaAPI_new))
       (Str address_A) =
     (Inl ''Failed to get balance: fetch failed'',
      [Rpc ''https://rpc.ankr.com/solana'' ''getBalance'' [Str address_A]])"
proof -
  let ?d = "fst (initConnection Map.empty world_down 1000 SolanaAPI_new)"
  have dead: "list_all (\<lambda>e. \<not> live world_down e) (initConnection_endpoints Map.empty)"
    by (simp add: initConnection_endpoints_def config_solana_endpoints_def network_def
        env_or_def live_def world_down_def ledger_down_def)
  have built: "filter (\<lambda>e. Connection_new (sdk world_down) e = None)
        (initConnection_endpoints Map.empty) =
      [''https://api.mainnet-beta.solana.com'', ''https://solana-api.projectserum.com'',
       ''https://rpc.ankr.com/solana'']"
    by (simp add: initConnection_endpoints_def config_solana_endpoints_def network_def
        env_or_def world_down_def sdk0_def)
  note up = getBalance_after_failed_connect
      [where w' = world_balance_up and now = 1000 and address = "Str address_A", OF dead refl]
  note down = getBalance_after_failed_connect
      [where w' = world_down and now = 1000 and address = "Str address_A", OF dead refl]
  from up have flag: "\<not> connected ?d" and handle: "connection ?d = Some ''https://rpc.ankr.com/solana''"
    by (simp_all add: built)
  from up handle have 1: "getBalance world_balance_up ?d (Str address_A) =
     (Inr (Obj [(''address'', Str address_A),
                (''balanceInLamports'', Num 42),
                (''balanceInSol'', Num (42 / 1000000000))]),
      [Rpc ''https://rpc.ankr.com/solana'' ''getBalance'' [Str address_A]])"
    by (simp add: world_balance_up_def sdk0_def LAMPORTS_PER_SOL_def)
  from down handle have 2: "getBalance world_down ?d (Str address_A) =
     (Inl ''Failed to get balance: fetch failed'',
      [Rpc ''https://rpc.ankr.com/solana'' ''getBalance'' [Str address_A]])"
    by (simp add: world_down_def sdk0_def ledger_down_def)
  from flag handle 1 2 show ?thesis by simp
qed

section \<open>Transfers\<close>

text \<open>
  The two \<open>transferSol\<close> functions check the key: when the address derived from the private
  key is not \<open>fromAddress\<close>, they throw the mismatch error and nothing has been sent.
\<close>

lemma transferSol_key_mismatch:
  "PublicKey_new (sdk w) fromAddress = Inr fromPubkey \<Longrightarrow>
   PublicKey_new (sdk w) toAddress = Inr toPubkey \<Longrightarrow>
   bs58_decode (sdk w) privateKey = Inr secretKey \<Longrightarrow>
   Keypair_fromSecretKey (sdk w) secretKey = Inr derived \<Longrightarrow>
   Str derived \<noteq> fromAddress \<Longrightarrow>
     transferSol w this fromAddress toAddress amount privateKey =
       (Inl ''Failed to transfer SOL: Private key does not match sender address'', [])"
  by (simp add: transferSol_def io_defs)

lemma solana_transferSol_key_mismatch:
  "PublicKey_new (sdk w) fromAddress = Inr fromPubkey \<Longrightarrow>
   PublicKey_new (sdk w) toAddress = Inr toPubkey \<Longrightarrow>
   bs58_decode (sdk w) privateKey = Inr secretKey \<Longrightarrow>
   Keypair_fromSecretKey (sdk w) secretKey = Inr derived \<Longrightarrow>
   Str derived \<noteq> fromAddress \<Longrightarrow>
     solana_transferSol w m fromAddress toAddress amount privateKey =
       (Inl ''Failed to transfer SOL: Private key does not match sender address'', [])"
  by (simp add: solana_transferSol_def io_defs)

lemma tool_transferSol_key_mismatch:
  "z_string 32 44 (opt_prop args ''from'') \<Longrightarrow> z_string 32 44 (opt_prop args ''to'') \<Longrightarrow>
   z_string 87 88 (opt_prop args ''privateKey'') \<Longrightarrow> z_positive (opt_prop args ''amount'') = Some amount \<Longrightarrow>
   PublicKey_new (sdk w) (opt_prop args ''from'') = Inr fromPubkey \<Longrightarrow>
   PublicKey_new (sdk w) (opt_prop args ''to'') = Inr toPubkey \<Longrightarrow>
   bs58_decode (sdk w) (opt_prop args ''privateKey'') = Inr secretKey \<Longrightarrow>
   Keypair_fromSecretKey (sdk w) secretKey = Inr derived \<Longrightarrow>
   Str derived \<noteq> opt_prop args ''from'' \<Longrightarrow>
     tool_transferSol w this args =
       (ErrorContent
          ''Error transferring SOL: Failed to transfer SOL: Private key does not match sender address'',
        [])"
  by (simp add: tool_transferSol_def tool_reply_def transferSol_key_mismatch)

text \<open>
  Claim C5, on the \<open>transferSol\<close> action of \<open>processRequest\<close>: a request to transfer from
  \<open>address_A\<close> with the private key of \<open>address_C\<close>. The key does not derive \<open>address_A\<close>, and
  the code sends and confirms a transfer out of \<open>address_C\<close>; \<open>POST /api/mcp/execute\<close> answers
  200. The same arguments given to \<open>transferSol\<close> of solana.js, and to \<open>POST /api/transfer\<close>,
  are refused with nothing sent.
\<close>

theorem processRequest_transferSol_sends_on_key_mismatch:
  "bs58_decode (sdk world_transfers) (Str key_C) = Inr secret_C \<and>
   Keypair_fromSecretKey (sdk world_transfers) secret_C = Inr address_C \<and>
   address_C \<noteq> address_A \<and>
   processRequest world_transfers module_connected
       (Obj [(''action'', Str ''transferSol''),
             (''parameters'', Obj [(''from'', Str address_A), (''to'', Str address_B),
                                   (''amount'', Num 1), (''privateKey'', Str key_C)])]) =
     (Inr (Obj [(''action'', Str ''transferSol''),
                (''success'', Bool True),
                (''signature'', Str ''signature1''),
                (''message'', Str (''Transferred 1 SOL from '' @ address_C @ '' to '' @ address_B))]),
      [Rpc ''https://devnet.genesysgo.net'' ''sendTransaction''
         [Obj [(''fromPubkey'', Str address_C), (''toPubkey'', Str address_B),
               (''lamports'', Num 1000000000)]],
       Rpc ''https://devnet.genesysgo.net'' ''confirmTransaction'' [Str ''signature1'']]) \<and>
   fst (route_mcp_execute world_transfers module_connected
       (Obj [(''action'', Str ''transferSol''),
             (''parameters'', Obj [(''from'', Str address_A), (''to'', Str address_B),
                                   (''amount'', Num 1), (''privateKey'', Str key_C)])])) =
     \<lparr>status = 200,
      body = Obj [(''action'', Str ''transferSol''),
                  (''success'', Bool True),
                  (''signature'', Str ''signature1''),
                  (''message'', Str (''Transferred 1 SOL from '' @ address_C @ '' to '' @ address_B))]\<rparr> \<and>
   solana_transferSol world_transfers module_connected (Str address_A) (Str address_B) 1 (Str key_C) =
     (Inl ''Failed to transfer SOL: Private key does not match sender address'', []) \<and>
   route_transfer world_transfers module_connected
       (Obj [(''from'', Str address_A), (''to'', Str address_B),
             (''amount'', Num 1), (''privateKey'', Str key_C)]) =
     (\<lparr>status = 500,
       body = Obj [(''error'',
                    Str ''Failed to transfer SOL: Private key does not match sender address'')]\<rparr>, [])"
  by (simp add: route_mcp_execute_def route_transfer_def res_json_def res_error_def
      processRequest_def processRequest_transferSol_def solana_transferSol_def io_defs
      world_transfers_def sdk0_def ledger_down_def module_connected_def get_prop_def
      transfer_instruction_def Math_round_def address_A_def address_B_def address_C_def key_C_def
      floor_eq_iff)

theorem processRequest_transferSol_sends_on_key_mismatch_witness:
  "snd (processRequest world_transfers module_connected
       (Obj [(''action'', Str ''transferSol''),
             (''parameters'', Obj [(''from'', Str address_A), (''to'', Str address_B),
                                   (''amount'', Num 1), (''privateKey'', Str key_C)])])) =
     [Rpc ''https://devnet.genesysgo.net'' ''sendTransaction''
        [Obj [(''fromPubkey'', Str address_C), (''toPubkey'', Str address_B),
              (''lamports'', Num 1000000000)]],
      Rpc ''https://devnet.genesysgo.net'' ''confirmTransaction'' [Str ''signature1'']]"
  using processRequest_transferSol_sends_on_key_mismatch by simp

section \<open>Account information\<close>

text \<open>
  Claim C9 as stated fails on the generic dispatch. For an address without account,
  \<open>processRequest\<close> answers with eight properties, among them the action, a balance object
  it fetched with \<open>getBalance\<close>, and four properties set to null.
\<close>

theorem processRequest_getAccountInfo_absent_counterexample:
  "rpc_getAccountInfo (ledger world_no_accounts) ''https://devnet.genesysgo.net'' address_A = Inr None \<and>
   processRequest world_no_accounts module_connected
       (Obj [(''action'', Str ''getAccountInfo''),
             (''parameters'', Obj [(''address'', Str address_A)])]) =
     (Inr (Obj [(''action'', Str ''getAccountInfo''),
                (''address'', Str address_A),
                (''balance'', Obj [(''address'', Str address_A),
                                   (''balanceInLamports'', Num 0),
                                   (''balanceInSol'', Num 0)]),
                (''exists'', Bool False),
                (''executable'', Null),
                (''owner'', Null),
                (''rentEpoch'', Null),
                (''dataSize'', Null)]),
      [Rpc ''https://devnet.genesysgo.net'' ''getAccountInfo'' [Str address_A],
       Rpc ''https://devnet.genesysgo.net'' ''getBalance'' [Str address_A]]) \<and>
   fst (processRequest world_no_accounts module_connected
       (Obj [(''action'', Str ''getAccountInfo''),
             (''parameters'', Obj [(''address'', Str address_A)])])) \<noteq>
     Inr (Obj [(''exists'', Bool False), (''address'', Str address_A)]) \<and>
   status (fst (route_mcp_execute world_no_accounts module_connected
       (Obj [(''action'', Str ''getAccountInfo''),
             (''parameters'', Obj [(''address'', Str address_A)])]))) = 200"
  by (simp add: route_mcp_execute_def res_json_def processRequest_def processRequest_getAccountInfo_def solana_getBalance_def io_defs
      world_no_accounts_def sdk0_def ledger_down_def module_connected_def get_prop_def
      opt_json_def num_of_nat_def LAMPORTS_PER_SOL_def address_A_def)

text \<open>
  Claim C9, amended. Let the address be a public key whose account the endpoint reports
  as absent. \<open>getAccountInfo\<close> of the class, and with it the stdio tool, returns the object
  of \<open>exists: false\<close> and the address, and nothing else; \<open>GET /api/account/:address\<close> answers
  200 with the same two properties. The \<open>getAccountInfo\<close> action of \<open>processRequest\<close> answers
  with the action, the address, the balance object of \<open>getBalance\<close>, \<open>exists: false\<close>, and
  \<open>executable\<close>, \<open>owner\<close>, \<open>rentEpoch\<close> and \<open>dataSize\<close> set to null.
\<close>

theorem getAccountInfo_absent_account:
  assumes "PublicKey_new (sdk w) (Str a) = Inr k"
    and "rpc_getAccountInfo (ledger w) e k = Inr None"
  shows "(connection this = Some e \<longrightarrow>
            getAccountInfo w this (Str a) =
              (Inr (Obj [(''exists'', Bool False), (''address'', Str a)]),
               [Rpc e ''getAccountInfo'' [Str k]])) \<and>
         (connection this = Some e \<and> 32 \<le> length a \<and> length a \<le> 44 \<longrightarrow>
            tool_getAccountInfo w this (Obj [(''address'', Str a)]) =
              (Content (Obj [(''exists'', Bool False), (''address'', Str a)]),
               [Rpc e ''getAccountInfo'' [Str k]])) \<and>
         (module_connection m = Some e \<longrightarrow>
            route_account w m a =
              (\<lparr>status = 200, body = Obj [(''address'', Str a), (''exists'', Bool False)]\<rparr>,
               [Rpc e ''getAccountInfo'' [Str k]])) \<and>
         (module_connection m = Some e \<and> a \<noteq> [] \<and> rpc_getBalance (ledger w) e k = Inr n \<longrightarrow>
            processRequest w m
                (Obj [(''action'', Str ''getAccountInfo''), (''parameters'', Obj [(''address'', Str a)])]) =
              (Inr (Obj [(''action'', Str ''getAccountInfo''),
                         (''address'', Str a),
                         (''balance'', Obj [(''address'', Str a),
                                            (''balanceInLamports'', num_of_nat n),
                                            (''balanceInSol'', Num (of_nat n / LAMPORTS_PER_SOL))]),
                         (''exists'', Bool False),
                         (''executable'', Null),
                         (''owner'', Null),
                         (''rentEpoch'', Null),
                         (''dataSize'', Null)]),
               [Rpc e ''getAccountInfo'' [Str k], Rpc e ''getBalance'' [Str k]]))"
proof (intro conjI impI)
  assume "connection this = Some e"
  with assms show "getAccountInfo w this (Str a) =
      (Inr (Obj [(''exists'', Bool False), (''address'', Str a)]), [Rpc e ''getAccountInfo'' [Str k]])"
    by (simp add: getAccountInfo_def account_json_def io_defs)
next
  assume "connection this = Some e \<and> 32 \<le> length a \<and> length a \<le> 44"
  with assms show "tool_getAccountInfo w this (Obj [(''address'', Str a)]) =
      (Content (Obj [(''exists'', Bool False), (''address'', Str a)]),
       [Rpc e ''getAccountInfo'' [Str k]])"
    by (simp add: tool_getAccountInfo_def tool_reply_def z_string_def get_prop_def
        getAccountInfo_def account_json_def io_defs)
next
  assume "module_connection m = Some e"
  with assms show "route_account w m a =
      (\<lparr>status = 200, body = Obj [(''address'', Str a), (''exists'', Bool False)]\<rparr>,
       [Rpc e ''getAccountInfo'' [Str k]])"
    by (simp add: route_account_def res_json_def solana_getAccountInfo_def account_json_def io_defs)
next
  assume "module_connection m = Some e \<and> a \<noteq> [] \<and> rpc_getBalance (ledger w) e k = Inr n"
  with assms show "processRequest w m
      (Obj [(''action'', Str ''getAccountInfo''), (''parameters'', Obj [(''address'', Str a)])]) =
      (Inr (Obj [(''action'', Str ''getAccountInfo''),
                 (''address'', Str a),
                 (''balance'', Obj [(''address'', Str a),
                                    (''balanceInLamports'', num_of_nat n),
                                    (''balanceInSol'', Num (of_nat n / LAMPORTS_PER_SOL))]),
                 (''exists'', Bool False),
                 (''executable'', Null),
                 (''owner'', Null),
                 (''rentEpoch'', Null),
                 (''dataSize'', Null)]),
       [Rpc e ''getAccountInfo'' [Str k], Rpc e ''getBalance'' [Str k]])"
    by (simp add: processRequest_def processRequest_getAccountInfo_def solana_getBalance_def
        get_prop_def opt_json_def io_defs)
qed

theorem getAccountInfo_absent_account_witness:
  "getAccountInfo world_no_accounts api_connected (Str address_A) =
     (Inr (Obj [(''exists'', Bool False), (''address'', Str address_A)]),
      [Rpc ''https://api.mainnet-beta.solana.com'' ''getAccountInfo'' [Str address_A]]) \<and>
   tool_getAccountInfo world_no_accounts api_connected (Obj [(''address'', Str address_A)]) =
     (Content (Obj [(''exists'', Bool False), (''address'', Str address_A)]),
      [Rpc ''https://api.mainnet-beta.solana.com'' ''getAccountInfo'' [Str address_A]]) \<and>
   route_account world_no_accounts module_connected address_A =
     (\<lparr>status = 200, body = Obj [(''address'', Str address_A), (''exists'', Bool False)]\<rparr>,
      [Rpc ''https://devnet.genesysgo.net'' ''getAccountInfo'' [Str address_A]])"
proof -
  have key: "PublicKey_new (sdk world_no_accounts) (Str address_A) = Inr address_A"
    by (simp add: world_no_accounts_def sdk0_def)
  have absent: "rpc_getAccountInfo (ledger world_no_accounts) e address_A = Inr None" for e
    by (simp add: world_no_accounts_def)
  have len: "32 \<le> length address_A \<and> length address_A \<le> 44"
    by (simp add: address_A_def)
  from getAccountInfo_absent_account
         [OF key absent, where this = api_connected and m = module_connected
            and e = "''https://api.mainnet-beta.solana.com''"] len
  have 1: "getAccountInfo world_no_accounts api_connected (Str address_A) =
      (Inr (Obj [(''exists'', Bool False), (''address'', Str address_A)]),
       [Rpc ''https://api.mainnet-beta.solana.com'' ''getAccountInfo'' [Str address_A]])"
    and 2: "tool_getAccountInfo world_no_accounts api_connected (Obj [(''address'', Str address_A)]) =
      (Content (Obj [(''exists'', Bool False), (''address'', Str address_A)]),
       [Rpc ''https://api.mainnet-beta.solana.com'' ''getAccountInfo'' [Str address_A]])"
    by (simp_all add: api_connected_def)
  from getAccountInfo_absent_account
         [OF key absent, where this = api_connected and m = module_connected
            and e = "''https://devnet.genesysgo.net''"]
  have 3: "route_account world_no_accounts module_connected address_A =
      (\<lparr>status = 200, body = Obj [(''address'', Str address_A), (''exists'', Bool False)]\<rparr>,
       [Rpc ''https://devnet.genesysgo.net'' ''getAccountInfo'' [Str address_A]])"
    by (simp add: module_connected_def)
  from 1 2 3 show ?thesis by simp
qed

section \<open>The limit of getTransactions\<close>

text \<open>
  The stdio tool refuses every limit above 100 without calling the handler, and all
  three front-ends give the handler 10 when the request has no limit.
\<close>

lemma tool_getTransactions_rejects_over_100:
  "opt_prop args ''limit'' = Num r \<Longrightarrow> 100 < r \<Longrightarrow>
     tool_getTransactions w this args = (InvalidParams, [])"
  by (simp add: tool_getTransactions_def z_limit_def)

lemma limit_defaults_to_10:
  "z_limit Undefined = Some (Num 10)"
  "query_limit None = 10"
  "js_or Undefined (Num 10) = Num 10"
  by (simp_all add: z_limit_def query_limit_def js_or_def)

lemma parseInt_500: "parseInt ''500'' = Some 500"
  by (simp add: parseInt_def is_space_def digit_of_def)

text \<open>
  Claim C4, on a request for the transactions of \<open>address_A\<close> with limit 500. The HTTP route
  and the generic dispatch call the handler, which asks the ledger for 500 signatures; only
  the stdio tool refuses the request before its handler.
\<close>

theorem getTransactions_limit_500_reaches_handler:
  "route_transactions world_history module_connected address_A (Some ''500'') =
     (\<lparr>status = 200, body = Obj [(''address'', Str address_A), (''transactions'', Arr [])]\<rparr>,
      [Rpc ''https://devnet.genesysgo.net'' ''getSignaturesForAddress''
         [Str address_A, Obj [(''limit'', Num 500)]]]) \<and>
   processRequest world_history module_connected
       (Obj [(''action'', Str ''getTransactions''),
             (''parameters'', Obj [(''address'', Str address_A), (''limit'', Num 500)])]) =
     (Inr (Obj [(''action'', Str ''getTransactions''), (''address'', Str address_A),
                (''transactions'', Arr [])]),
      [Rpc ''https://devnet.genesysgo.net'' ''getSignaturesForAddress''
         [Str address_A, Obj [(''limit'', Num 500)]]]) \<and>
   handleWebSocketMessage world_history module_connected
       (Obj [(''requestId'', Num 1), (''action'', Str ''getTransactions''),
             (''parameters'', Obj [(''address'', Str address_A), (''limit'', Num 500)])]) =
     (Some (Obj [(''type'', Str ''response''), (''requestId'', Num 1),
                 (''data'', Obj [(''action'', Str ''getTransactions''), (''address'', Str address_A),
                                 (''transactions'', Arr [])])]),
      [Rpc ''https://devnet.genesysgo.net'' ''getSignaturesForAddress''
         [Str address_A, Obj [(''limit'', Num 500)]]]) \<and>
   tool_getTransactions world_history api_connected
       (Obj [(''address'', Str address_A), (''limit'', Num 500)]) = (InvalidParams, [])"
  by (simp add: route_transactions_def query_limit_def parseInt_500 res_json_def
      handleWebSocketMessage_def processRequest_def solana_getTransactions_def default_limit_def
      js_or_def io_defs tool_getTransactions_def z_string_def z_limit_def get_prop_def
      world_history_def sdk0_def module_connected_def address_A_def)

section \<open>The network status\<close>

text \<open>
  \<open>getNetworkStatus\<close> of the class never throws: whatever the sub-queries do, it returns an
  object. With the flag set and a block time that can be printed, a sub-query that fails
  leaves null in its property, or \<open>unknown\<close> for the health and 0 for the supply figures.
\<close>

lemma getNetworkStatus_returns_object:
  "\<exists>ps. fst (snd (getNetworkStatus env w now this)) = Inr (Obj ps)"
  by (simp add: getNetworkStatus_def split_def Let_def split: sum.splits)

lemma getNetworkStatus_degrades:
  assumes "connected this" and "connection this = Some e"
    and "rpc_getBlockTime (ledger w) e n = Inl cause \<or> rpc_getBlockTime (ledger w) e n = Inr None"
    and "rpc_getSlot (ledger w) e = Inr n"
  shows "fst (snd (getNetworkStatus env w now this)) =
     Inr (Obj [(''network'', Str network),
               (''connected'', Bool True),
               (''version'', (case rpc_getVersion (ledger w) e of Inl c \<Rightarrow> Null | Inr v \<Rightarrow> v)),
               (''currentSlot'', num_of_nat n),
               (''blockTime'', Null),
               (''health'', (case rpc_getHealth (ledger w) e of Inl c \<Rightarrow> Str ''unknown'' | Inr h \<Rightarrow> h)),
               (''totalSupply'',
                  (case rpc_getSupply (ledger w) e of Inl c \<Rightarrow> Num 0
                   | Inr (t, c) \<Rightarrow> Num (of_nat t / LAMPORTS_PER_SOL))),
               (''circulatingSupply'',
                  (case rpc_getSupply (ledger w) e of Inl c \<Rightarrow> Num 0
                   | Inr (t, c) \<Rightarrow> Num (of_nat c / LAMPORTS_PER_SOL)))])"
  using assms
  by (auto simp: getNetworkStatus_def caught_def conn_call_def blockTime_field_def opt_json_def
      split: sum.splits)

text \<open>
  Claim C8, on \<open>getNetworkStatus\<close> of solana.js, which serves \<open>GET /api/network\<close> and the
  generic dispatch, with a node that answers every query but \<open>getSupply\<close>: the call throws
  and the route answers 500.
  The class, in the same world, returns the status with the supply figures at 0.
\<close>

theorem solana_getNetworkStatus_fails_on_one_subquery:
  "solana_getNetworkStatus world_no_supply module_connected =
     (Inl ''Failed to get network status: fetch failed'',
      [Rpc ''https://devnet.genesysgo.net'' ''getVersion'' [],
       Rpc ''https://devnet.genesysgo.net'' ''getSlot'' [],
       Rpc ''https://devnet.genesysgo.net'' ''getBlockTime'' [Num 1000],
       Rpc ''https://devnet.genesysgo.net'' ''getSupply'' []]) \<and>
   fst (route_network world_no_supply module_connected) =
     \<lparr>status = 500, body = Obj [(''error'', Str ''Failed to get network status: fetch failed'')]\<rparr> \<and>
   fst (snd (getNetworkStatus Map.empty world_no_supply 2000 api_connected)) =
     Inr (Obj [(''network'', Str ''mainnet-beta''),
               (''connected'', Bool True),
               (''version'', Obj [(''solana-core'', Str ''1.18.0'')]),
               (''currentSlot'', Num 1000),
               (''blockTime'', Str ''2023-11-14T22:13:20.000Z''),
               (''health'', Str ''ok''),
               (''totalSupply'', Num 0),
               (''circulatingSupply'', Num 0)])"
  by (simp add: solana_getNetworkStatus_def route_network_def res_error_def
      getNetworkStatus_def io_defs caught_def
      blockTime_field_def opt_json_def num_of_nat_def network_def
      world_no_supply_def sdk0_def ledger_down_def module_connected_def api_connected_def)

section \<open>Where private keys go\<close>

text \<open>
  Whatever a WebSocket client sends, once it parses, the handler first prints it whole to
  the console.
\<close>

lemma ws_on_message_logs_every_message:
  "\<exists>evs. snd (ws_on_message w m (Inr parsedMessage)) =
     ConsoleLog [Str ''Received WebSocket message:'', parsedMessage] # evs"
  by (simp add: ws_on_message_def split: prod.splits)

text \<open>
  Claim C6, on a WebSocket message of type \<open>mcp\<close> that asks for a transfer of 1 SOL out of
  \<open>address_C\<close> and carries its private key \<open>key_C\<close>. The handler prints the parsed message,
  the private key in it, to the console of the server, then the transfer is sent and
  confirmed and the response returned. The key has left the memory of the operation that
  signs with it.
\<close>

theorem ws_on_message_prints_private_key:
  "ws_on_message world_transfers module_connected
       (Inr (Obj [(''type'', Str ''mcp''),
                  (''data'',
                     Obj [(''requestId'', Num 1), (''action'', Str ''transferSol''),
                          (''parameters'',
                             Obj [(''from'', Str address_C), (''to'', Str address_B),
                                  (''amount'', Num 1), (''privateKey'', Str key_C)])])])) =
     ([Obj [(''type'', Str ''response''),
            (''requestId'', Num 1),
            (''data'',
               Obj [(''action'', Str ''transferSol''),
                    (''success'', Bool True),
                    (''signature'', Str ''signature1''),
                    (''message'', Str (''Transferred 1 SOL from '' @ address_C @ '' to '' @ address_B))])]],
      [ConsoleLog
         [Str ''Received WebSocket message:'',
          Obj [(''type'', Str ''mcp''),
               (''data'',
                  Obj [(''requestId'', Num 1), (''action'', Str ''transferSol''),
                       (''parameters'',
                          Obj [(''from'', Str address_C), (''to'', Str address_B),
                               (''amount'', Num 1), (''privateKey'', Str key_C)])])]],
       Rpc ''https://devnet.genesysgo.net'' ''sendTransaction''
         [Obj [(''fromPubkey'', Str address_C), (''toPubkey'', Str address_B),
               (''lamports'', Num 1000000000)]],
       Rpc ''https://devnet.genesysgo.net'' ''confirmTransaction'' [Str ''signature1'']])"
  by (simp add: ws_on_message_def handleWebSocketMessage_def processRequest_def
      processRequest_transferSol_def io_defs world_transfers_def sdk0_def ledger_down_def
      module_connected_def get_prop_def transfer_instruction_def Math_round_def
      address_A_def address_B_def address_C_def key_C_def floor_eq_iff)

section \<open>The private key of the token flow\<close>

lemma truthy_js_or: "truthy b \<Longrightarrow> truthy (js_or a b)"
  by (simp add: js_or_def)

lemma createToken_returns: "\<exists>v. fst (createToken w x env options) = Inr v"
  by (simp add: createToken_def catch_return_def split: prod.splits sum.splits)

text \<open>
  Claim C10. The key \<open>createPumpFunToken\<close> settles on is always truthy, so never the empty
  string: when neither the parameter nor \<open>PUMPFUN_PRIVATE_KEY\<close> gives one, it is the
  non-empty literal of the source. The call therefore never throws the error of the
  missing key, and with a name and a symbol it always reaches \<open>createToken\<close> and returns its
  result.
\<close>

theorem createPumpFunToken_no_private_key_unreachable:
  "truthy (createPumpFunToken_privateKey env params) \<and>
   createPumpFunToken_privateKey env params \<noteq> Str [] \<and>
   (\<not> truthy (opt_prop params ''privateKey'') \<and> \<not> truthy (env_val env ''PUMPFUN_PRIVATE_KEY'') \<longrightarrow>
      createPumpFunToken_privateKey env params = Str hardcodedKey) \<and>
   hardcodedKey \<noteq> [] \<and>
   fst (createPumpFunToken w x env params) \<noteq> Inl no_private_key \<and>
   (truthy (opt_prop params ''name'') \<and> truthy (opt_prop params ''symbol'') \<longrightarrow>
      createPumpFunToken w x env params =
        createToken w x env
          (Obj [(''metadata'',
                   Obj [(''name'', opt_prop params ''name''),
                        (''symbol'', opt_prop params ''symbol''),
                        (''description'',
                           js_or (opt_prop params ''description'')
                             (Str (''Created via Solana MCP on '' @ now_toISOString x))),
                        (''website'', js_or (opt_prop params ''website'') (Str [])),
                        (''twitter'', js_or (opt_prop params ''twitter'') (Str [])),
                        (''telegram'', js_or (opt_prop params ''telegram'') (Str [])),
                        (''showName'', Str ''true'')]),
                (''privateKey'', createPumpFunToken_privateKey env params),
                (''imagePath'', Str (default_image_path x)),
                (''amount'', js_or (parseFloat (sdk w) (opt_prop params ''amount'')) (Num (1 / 10))),
                (''slippage'', js_or (parseInt_js (sdk w) (opt_prop params ''slippage'')) (Num 10)),
                (''priorityFee'',
                   js_or (parseFloat (sdk w) (opt_prop params ''priorityFee'')) (Num (5 / 10000))),
                (''rpcUrl'',
                   js_or (opt_prop params ''rpcUrl'')
                     (js_or (env_val env ''HELIUS_RPC_URL'') (Str ''your rpc url'')))]))"
proof -
  have key: "truthy (createPumpFunToken_privateKey env params)"
    unfolding createPumpFunToken_privateKey_def
    by (intro truthy_js_or) (simp add: hardcodedKey_def)
  then have nonempty: "createPumpFunToken_privateKey env params \<noteq> Str []"
    by auto
  have fallback: "createPumpFunToken_privateKey env params = Str hardcodedKey"
    if "\<not> truthy (opt_prop params ''privateKey'') \<and> \<not> truthy (env_val env ''PUMPFUN_PRIVATE_KEY'')"
    using that by (simp add: createPumpFunToken_privateKey_def js_or_def)
  have literal: "hardcodedKey \<noteq> []"
    by (simp add: hardcodedKey_def)
  obtain v where "fst (createToken w x env
      (Obj [(''metadata'',
               Obj [(''name'', opt_prop params ''name''),
                    (''symbol'', opt_prop params ''symbol''),
                    (''description'',
                       js_or (opt_prop params ''description'')
                         (Str (''Created via Solana MCP on '' @ now_toISOString x))),
                    (''website'', js_or (opt_prop params ''website'') (Str [])),
                    (''twitter'', js_or (opt_prop params ''twitter'') (Str [])),
                    (''telegram'', js_or (opt_prop params ''telegram'') (Str [])),
                    (''showName'', Str ''true'')]),
            (''privateKey'', createPumpFunToken_privateKey env params),
            (''imagePath'', Str (default_image_path x)),
            (''amount'', js_or (parseFloat (sdk w) (opt_prop params ''amount'')) (Num (1 / 10))),
            (''slippage'', js_or (parseInt_js (sdk w) (opt_prop params ''slippage'')) (Num 10)),
            (''priorityFee'',
               js_or (parseFloat (sdk w) (opt_prop params ''priorityFee'')) (Num (5 / 10000))),
            (''rpcUrl'',
               js_or (opt_prop params ''rpcUrl'')
                 (js_or (env_val env ''HELIUS_RPC_URL'') (Str ''your rpc url'')))])) = Inr v"
    using createToken_returns by blast
  with key have never: "fst (createPumpFunToken w x env params) \<noteq> Inl no_private_key"
    by (simp add: createPumpFunToken_def Let_def io_pure_def no_private_key_def)
  have reaches: "createPumpFunToken w x env params =
        createToken w x env
          (Obj [(''metadata'',
                   Obj [(''name'', opt_prop params ''name''),
                        (''symbol'', opt_prop params ''symbol''),
                        (''description'',
                           js_or (opt_prop params ''description'')
                             (Str (''Created via Solana MCP on '' @ now_toISOString x))),
                        (''website'', js_or (opt_prop params ''website'') (Str [])),
                        (''twitter'', js_or (opt_prop params ''twitter'') (Str [])),
                        (''telegram'', js_or (opt_prop params ''telegram'') (Str [])),
                        (''showName'', Str ''true'')]),
                (''privateKey'', createPumpFunToken_privateKey env params),
                (''imagePath'', Str (default_image_path x)),
                (''amount'', js_or (parseFloat (sdk w) (opt_prop params ''amount'')) (Num (1 / 10))),
                (''slippage'', js_or (parseInt_js (sdk w) (opt_prop params ''slippage'')) (Num 10)),
                (''priorityFee'',
                   js_or (parseFloat (sdk w) (opt_prop params ''priorityFee'')) (Num (5 / 10000))),
                (''rpcUrl'',
                   js_or (opt_prop params ''rpcUrl'')
                     (js_or (env_val env ''HELIUS_RPC_URL'') (Str ''your rpc url'')))])"
    if "truthy (opt_prop params ''name'') \<and> truthy (opt_prop params ''symbol'')"
    using that key by (auto simp: createPumpFunToken_def Let_def)
  from key nonempty fallback literal never reaches show ?thesis
    by blast
qed

theorem createPumpFunToken_no_private_key_unreachable_witness:
  "createPumpFunToken_privateKey Map.empty
       (Obj [(''name'', Str ''Final Test Token''), (''symbol'', Str ''FTT'')]) =
     Str ''your private key'' \<and>
   createPumpFunToken world_down web_down Map.empty
       (Obj [(''name'', Str ''Final Test Token''), (''symbol'', Str ''FTT'')]) =
     (Inr (Obj [(''success'', Bool False), (''error'', Str ''Non-base58 character''),
                (''details'', Undefined)]), [])"
proof -
  let ?params = "Obj [(''name'', Str ''Final Test Token''), (''symbol'', Str ''FTT'')]"
  have unset: "\<not> truthy (opt_prop ?params ''privateKey'') \<and>
      \<not> truthy (env_val Map.empty ''PUMPFUN_PRIVATE_KEY'')"
    by (simp add: get_prop_def env_val_def)
  have present: "truthy (opt_prop ?params ''name'') \<and> truthy (opt_prop ?params ''symbol'')"
    by (simp add: get_prop_def)
  from createPumpFunToken_no_private_key_unreachable
         [where env = Map.empty and params = ?params and w = world_down and x = web_down]
       unset present
  have "createPumpFunToken_privateKey Map.empty ?params = Str hardcodedKey"
    and "createPumpFunToken world_down web_down Map.empty ?params =
      createToken world_down web_down Map.empty
        (Obj [(''metadata'',
                 Obj [(''name'', opt_prop ?params ''name''),
                      (''symbol'', opt_prop ?params ''symbol''),
                      (''description'',
                         js_or (opt_prop ?params ''description'')
                           (Str (''Created via Solana MCP on '' @ now_toISOString web_down))),
                      (''website'', js_or (opt_prop ?params ''website'') (Str [])),
                      (''twitter'', js_or (opt_prop ?params ''twitter'') (Str [])),
                      (''telegram'', js_or (opt_prop ?params ''telegram'') (Str [])),
                      (''showName'', Str ''true'')]),
              (''privateKey'', createPumpFunToken_privateKey Map.empty ?params),
              (''imagePath'', Str (default_image_path web_down)),
              (''amount'',
                 js_or (parseFloat (sdk world_down) (opt_prop ?params ''amount'')) (Num (1 / 10))),
              (''slippage'',
                 js_or (parseInt_js (sdk world_down) (opt_prop ?params ''slippage'')) (Num 10)),
              (''priorityFee'',
                 js_or (parseFloat (sdk world_down) (opt_prop ?params ''priorityFee''))
                   (Num (5 / 10000))),
              (''rpcUrl'',
                 js_or (opt_prop ?params ''rpcUrl'')
                   (js_or (env_val Map.empty ''HELIUS_RPC_URL'') (Str ''your rpc url'')))])"
    by blast+
  then show ?thesis
    by (simp add: hardcodedKey_def createToken_def catch_return_def io_defs get_prop_def
        world_down_def sdk0_def web_down_def key_C_def)
qed

end
